theory Spec2Isabelle
  imports Main "HOL-Library.Multiset"
begin

section \<open>The relational store\<close>

text \<open>
  The stored procedures of the \<^verbatim>\<open>functional\<close> schema read and write tables whose
  declarations are not among the sources. A table is a list of rows in scan order; a row
  is a record whose fields carry the alias the procedures give the table
  (\<^verbatim>\<open>[prd].[idProduct]\<close> is \<open>prd_idProduct\<close>). A nullable column or variable is an
  \<open>option\<close>, \<open>None\<close> being NULL. Columns the service types declare as plain
  \<^verbatim>\<open>number\<close>, \<^verbatim>\<open>string\<close> or \<^verbatim>\<open>boolean\<close> are not nullable; the others are,
  and so are the three serialized columns of a product (\<^verbatim>\<open>ingredients\<close>,
  \<^verbatim>\<open>nutritionalInfo\<close>, \<^verbatim>\<open>imageGallery\<close>), which the service decodes itself.
  \<^verbatim>\<open>NUMERIC(18, 6)\<close> values are integers counting millionths, \<^verbatim>\<open>DATETIME2\<close>
  values are integers counting ticks. Values are assumed to stay inside the range of
  their column type, except where a procedure computes with a number the caller chose
  (the page offset), where the overflow error is part of the model.
\<close>

record product_row =
  prd_idProduct :: int
  prd_idAccount :: int
  prd_idConfectioner :: int
  prd_idCategory :: int
  prd_name :: string
  prd_description :: string
  prd_ingredients :: "string option"
  prd_nutritionalInfo :: "string option"
  prd_basePrice :: int
  prd_promotionalPrice :: "int option"
  prd_mainImage :: string
  prd_imageGallery :: "string option"
  prd_averageRating :: int
  prd_totalReviews :: int
  prd_preparationTime :: string
  prd_available :: bool
  prd_active :: bool
  prd_deleted :: bool

record confectioner_row =
  cnf_idConfectioner :: int
  cnf_idAccount :: int
  cnf_name :: string
  cnf_photo :: "string option"
  cnf_averageRating :: int
  cnf_totalProductsSold :: int
  cnf_deleted :: bool

record category_row =
  cat_idCategory :: int
  cat_idAccount :: int
  cat_name :: string
  cat_deleted :: bool

record flavor_row =
  flv_idFlavor :: int
  flv_idAccount :: int
  flv_name :: string
  flv_deleted :: bool

record size_row =
  siz_idSize :: int
  siz_idAccount :: int
  siz_name :: string
  siz_description :: string
  siz_priceModifier :: int
  siz_deleted :: bool

record productFlavor_row =
  prdFlv_idAccount :: int
  prdFlv_idProduct :: int
  prdFlv_idFlavor :: int
  prdFlv_available :: bool

record productSize_row =
  prdSiz_idAccount :: int
  prdSiz_idProduct :: int
  prdSiz_idSize :: int
  prdSiz_available :: bool

record review_row =
  rev_idReview :: int
  rev_idAccount :: int
  rev_idProduct :: int
  rev_customerName :: string
  rev_rating :: int
  rev_comment :: "string option"
  rev_dateCreated :: int
  rev_deleted :: bool

record cart_row =
  crt_idCart :: int
  crt_idAccount :: int
  crt_idUser :: int
  crt_idProduct :: int
  crt_idFlavor :: int
  crt_idSize :: int
  crt_quantity :: int
  crt_unitPrice :: "int option"
  crt_totalPrice :: "int option"
  crt_notes :: "string option"

text \<open>
  The store: one list per table, and the last value the identity column of the cart
  table handed out (\<^verbatim>\<open>SCOPE_IDENTITY()\<close> after an insert is that value plus one).
\<close>

record database =
  tbl_product :: "product_row list"
  tbl_confectioner :: "confectioner_row list"
  tbl_category :: "category_row list"
  tbl_flavor :: "flavor_row list"
  tbl_size :: "size_row list"
  tbl_productFlavor :: "productFlavor_row list"
  tbl_productSize :: "productSize_row list"
  tbl_review :: "review_row list"
  tbl_cart :: "cart_row list"
  cart_identity :: int

text \<open>
  An error raised by \<^verbatim>\<open>THROW number, message, state\<close>, or by the engine itself:
  an arithmetic overflow, a negative \<^verbatim>\<open>TOP\<close>, or a name in a \<^verbatim>\<open>FROM\<close> clause that
  denotes no object (error 208, \<^verbatim>\<open>Invalid object name\<close>).
\<close>

datatype sql_error =
  THROW int string int
  | ArithmeticOverflow
  | InvalidTopValue
  | InvalidObjectName string

subsection \<open>Expressions over NULL\<close>

definition ISNULL :: "'a option \<Rightarrow> 'a option \<Rightarrow> 'a option" where
  "ISNULL check_expression replacement =
     (case check_expression of None \<Rightarrow> replacement | Some v \<Rightarrow> Some v)"

definition sql_plus :: "int option \<Rightarrow> int option \<Rightarrow> int option" where
  "sql_plus x y = (case x of None \<Rightarrow> None | Some a \<Rightarrow> (case y of None \<Rightarrow> None | Some b \<Rightarrow> Some (a + b)))"

definition sql_times :: "int option \<Rightarrow> int option \<Rightarrow> int option" where
  "sql_times x y = (case x of None \<Rightarrow> None | Some a \<Rightarrow> (case y of None \<Rightarrow> None | Some b \<Rightarrow> Some (a * b)))"

text \<open>
  \<^verbatim>\<open>SELECT @v = expr FROM ... WHERE ...\<close>: the variable keeps its value when no row
  qualifies and otherwise ends with the expression's value in the last qualifying row.
\<close>

definition select_into :: "'a option \<Rightarrow> 'a option list \<Rightarrow> 'a option" where
  "select_into v vals = (if vals = [] then v else last vals)"

subsection \<open>Result sets and the scope of a common table expression\<close>

text \<open>
  What the caller sees of one execution of a procedure that sends several result sets:
  the result sets sent before the procedure ended, and the error that ended it, if one
  did. A \<^verbatim>\<open>SELECT\<close> that has sent its rows is not taken back by an error in a later
  statement.
\<close>

record 'sets execution =
  recordsets :: 'sets
  raised :: "sql_error option"

text \<open>
  A common table expression belongs to the one statement that its \<^verbatim>\<open>WITH\<close> clause
  opens; the name means nothing to the statements after it. \<open>from_cte ctes name\<close> is
  \<^verbatim>\<open>FROM [name]\<close> in a statement whose \<^verbatim>\<open>WITH\<close> clause declares \<open>ctes\<close>: the rows
  of the expression of that name, and otherwise error 208, because the store holds the
  tables of \<open>database\<close> and no object called \<^verbatim>\<open>FilteredProducts\<close> or
  \<^verbatim>\<open>RelatedProducts\<close>. The engine resolves the name when the statement is reached
  (deferred name resolution), so the statements before it run.
\<close>

definition from_cte :: "(string \<times> 'r list) list \<Rightarrow> string \<Rightarrow> sql_error + 'r list" where
  "from_cte ctes name =
     (case map_of ctes name of
        None \<Rightarrow> Inl (InvalidObjectName name)
      | Some rows \<Rightarrow> Inr rows)"

section \<open>spCartAdd\<close>

record cart_add_params =
  ca_idAccount :: "int option"
  ca_idUser :: "int option"
  ca_idProduct :: "int option"
  ca_idFlavor :: "int option"
  ca_idSize :: "int option"
  ca_quantity :: "int option"
  ca_notes :: "string option"

text \<open>The three availability checks (\<^verbatim>\<open>IF NOT EXISTS (SELECT 1 ...)\<close>).\<close>

definition product_available :: "database \<Rightarrow> int \<Rightarrow> int \<Rightarrow> bool" where
  "product_available db idAccount idProduct =
     list_ex (\<lambda>prd. prd_idProduct prd = idProduct \<and> prd_idAccount prd = idAccount
                \<and> prd_deleted prd = False \<and> prd_active prd = True \<and> prd_available prd = True)
       (tbl_product db)"

definition flavor_available :: "database \<Rightarrow> int \<Rightarrow> int \<Rightarrow> int \<Rightarrow> bool" where
  "flavor_available db idAccount idProduct idFlavor =
     list_ex (\<lambda>prdFlv. prdFlv_idAccount prdFlv = idAccount \<and> prdFlv_idProduct prdFlv = idProduct
                \<and> prdFlv_idFlavor prdFlv = idFlavor \<and> prdFlv_available prdFlv = True)
       (tbl_productFlavor db)"

definition size_available :: "database \<Rightarrow> int \<Rightarrow> int \<Rightarrow> int \<Rightarrow> bool" where
  "size_available db idAccount idProduct idSize =
     list_ex (\<lambda>prdSiz. prdSiz_idAccount prdSiz = idAccount \<and> prdSiz_idProduct prdSiz = idProduct
                \<and> prdSiz_idSize prdSiz = idSize \<and> prdSiz_available prdSiz = True)
       (tbl_productSize db)"

text \<open>The rows the pricing queries and the cart lookup range over.\<close>

definition product_rows :: "database \<Rightarrow> int \<Rightarrow> int \<Rightarrow> product_row list" where
  "product_rows db idAccount idProduct =
     filter (\<lambda>prd. prd_idProduct prd = idProduct \<and> prd_idAccount prd = idAccount) (tbl_product db)"

definition size_rows :: "database \<Rightarrow> int \<Rightarrow> int \<Rightarrow> size_row list" where
  "size_rows db idAccount idSize =
     filter (\<lambda>siz. siz_idSize siz = idSize \<and> siz_idAccount siz = idAccount) (tbl_size db)"

definition cart_rows :: "database \<Rightarrow> int \<Rightarrow> int \<Rightarrow> int \<Rightarrow> int \<Rightarrow> int \<Rightarrow> cart_row list" where
  "cart_rows db idAccount idUser idProduct idFlavor idSize =
     filter (\<lambda>crt. crt_idAccount crt = idAccount \<and> crt_idUser crt = idUser
               \<and> crt_idProduct crt = idProduct \<and> crt_idFlavor crt = idFlavor
               \<and> crt_idSize crt = idSize) (tbl_cart db)"

text \<open>
  Rule \<^verbatim>\<open>fn-cart-pricing\<close>: \<^verbatim>\<open>@basePrice\<close>, \<^verbatim>\<open>@priceModifier\<close> and
  \<^verbatim>\<open>@unitPrice = @basePrice + @priceModifier\<close>.
\<close>

definition cart_basePrice :: "database \<Rightarrow> int \<Rightarrow> int \<Rightarrow> int option" where
  "cart_basePrice db idAccount idProduct =
     select_into None
       (map (\<lambda>prd. ISNULL (prd_promotionalPrice prd) (Some (prd_basePrice prd)))
          (product_rows db idAccount idProduct))"

definition cart_priceModifier :: "database \<Rightarrow> int \<Rightarrow> int \<Rightarrow> int option" where
  "cart_priceModifier db idAccount idSize =
     select_into None (map (\<lambda>siz. Some (siz_priceModifier siz)) (size_rows db idAccount idSize))"

definition cart_unitPrice :: "database \<Rightarrow> int \<Rightarrow> int \<Rightarrow> int \<Rightarrow> int option" where
  "cart_unitPrice db idAccount idProduct idSize =
     sql_plus (cart_basePrice db idAccount idProduct) (cart_priceModifier db idAccount idSize)"

text \<open>
  The procedure's variables once the statements before \<^verbatim>\<open>BEGIN TRY\<close> have run: the
  validated parameters, the prices, and the line found for the key. \<^verbatim>\<open>@idCart\<close> and
  \<^verbatim>\<open>@existingQuantity\<close> are assigned by one \<^verbatim>\<open>SELECT\<close> from one row, so they are
  NULL together: \<open>v_existing\<close> holds both, or \<open>None\<close>.
\<close>

record cart_vars =
  v_idAccount :: int
  v_idUser :: int
  v_idProduct :: int
  v_idFlavor :: int
  v_idSize :: int
  v_quantity :: int
  v_notes :: "string option"
  v_unitPrice :: "int option"
  v_totalPrice :: "int option"
  v_existing :: "(int \<times> int) option"

definition spCartAdd_read :: "database \<Rightarrow> cart_add_params \<Rightarrow> sql_error + cart_vars" where
  "spCartAdd_read db a =
     (case ca_idAccount a of None \<Rightarrow> Inl (THROW 51000 ''idAccountRequired'' 1) | Some idAccount \<Rightarrow>
      case ca_idUser a of None \<Rightarrow> Inl (THROW 51000 ''idUserRequired'' 1) | Some idUser \<Rightarrow>
      case ca_idProduct a of None \<Rightarrow> Inl (THROW 51000 ''idProductRequired'' 1) | Some idProduct \<Rightarrow>
      case ca_idFlavor a of None \<Rightarrow> Inl (THROW 51000 ''flavorRequired'' 1) | Some idFlavor \<Rightarrow>
      case ca_idSize a of None \<Rightarrow> Inl (THROW 51000 ''sizeRequired'' 1) | Some idSize \<Rightarrow>
      case ca_quantity a of None \<Rightarrow> Inl (THROW 51000 ''invalidQuantity'' 1) | Some quantity \<Rightarrow>
      if quantity < 1 \<or> quantity > 10 then Inl (THROW 51000 ''invalidQuantity'' 1)
      else if \<not> product_available db idAccount idProduct
        then Inl (THROW 51000 ''productNotAvailable'' 1)
      else if \<not> flavor_available db idAccount idProduct idFlavor
        then Inl (THROW 51000 ''flavorNotAvailable'' 1)
      else if \<not> size_available db idAccount idProduct idSize
        then Inl (THROW 51000 ''sizeNotAvailable'' 1)
      else
        let unitPrice = cart_unitPrice db idAccount idProduct idSize;
            totalPrice = sql_times unitPrice (Some quantity);
            existing = select_into None
              (map (\<lambda>crt. Some (crt_idCart crt, crt_quantity crt))
                 (cart_rows db idAccount idUser idProduct idFlavor idSize))
        in Inr \<lparr>v_idAccount = idAccount, v_idUser = idUser, v_idProduct = idProduct,
                v_idFlavor = idFlavor, v_idSize = idSize, v_quantity = quantity,
                v_notes = ca_notes a, v_unitPrice = unitPrice, v_totalPrice = totalPrice,
                v_existing = existing\<rparr>)"

text \<open>
  The statements between \<^verbatim>\<open>BEGIN TRAN\<close> and \<^verbatim>\<open>COMMIT TRAN\<close>: the new store and
  \<^verbatim>\<open>@idCart\<close>, or the error thrown.
\<close>

definition cart_update :: "cart_vars \<Rightarrow> int \<Rightarrow> int \<Rightarrow> cart_row \<Rightarrow> cart_row" where
  "cart_update v idCart newQuantity crt =
     (if crt_idCart crt = idCart
      then crt\<lparr>crt_quantity := newQuantity,
               crt_totalPrice := sql_times (v_unitPrice v) (Some newQuantity),
               crt_notes := ISNULL (v_notes v) (crt_notes crt)\<rparr>
      else crt)"

definition cart_insert :: "cart_vars \<Rightarrow> int \<Rightarrow> cart_row" where
  "cart_insert v idCart =
     \<lparr>crt_idCart = idCart, crt_idAccount = v_idAccount v, crt_idUser = v_idUser v,
      crt_idProduct = v_idProduct v, crt_idFlavor = v_idFlavor v, crt_idSize = v_idSize v,
      crt_quantity = v_quantity v, crt_unitPrice = v_unitPrice v,
      crt_totalPrice = v_totalPrice v, crt_notes = v_notes v\<rparr>"

definition cart_tran :: "database \<Rightarrow> cart_vars \<Rightarrow> sql_error + (database \<times> int)" where
  "cart_tran db v =
     (case v_existing v of
        Some (idCart, existingQuantity) \<Rightarrow>
          let newQuantity = existingQuantity + v_quantity v in
          if newQuantity > 10 then Inl (THROW 51000 ''quantityExceedsLimit'' 1)
          else Inr (db\<lparr>tbl_cart := map (cart_update v idCart newQuantity) (tbl_cart db)\<rparr>, idCart)
      | None \<Rightarrow>
          let idCart = cart_identity db + 1 in
          Inr (db\<lparr>tbl_cart := tbl_cart db @ [cart_insert v idCart], cart_identity := idCart\<rparr>,
               idCart))"

record cart_item =
  ci_idCart :: int
  ci_quantity :: int
  ci_unitPrice :: "int option"
  ci_totalPrice :: "int option"

definition cart_output :: "database \<Rightarrow> int \<Rightarrow> cart_item list" where
  "cart_output db idCart =
     map (\<lambda>crt. \<lparr>ci_idCart = crt_idCart crt, ci_quantity = crt_quantity crt,
                 ci_unitPrice = crt_unitPrice crt, ci_totalPrice = crt_totalPrice crt\<rparr>)
       (filter (\<lambda>crt. crt_idCart crt = idCart) (tbl_cart db))"

text \<open>
  \<^verbatim>\<open>BEGIN TRY ... END TRY BEGIN CATCH ROLLBACK TRAN; THROW; END CATCH\<close>: on an error
  the store is the one before \<^verbatim>\<open>BEGIN TRAN\<close> and the error is raised again.
\<close>

definition spCartAdd_write ::
  "database \<Rightarrow> cart_vars \<Rightarrow> database \<times> (sql_error + cart_item list)" where
  "spCartAdd_write db v =
     (case cart_tran db v of
        Inl e \<Rightarrow> (db, Inl e)
      | Inr (db', idCart) \<Rightarrow> (db', Inr (cart_output db' idCart)))"

definition spCartAdd ::
  "database \<Rightarrow> cart_add_params \<Rightarrow> database \<times> (sql_error + cart_item list)" where
  "spCartAdd db a =
     (case spCartAdd_read db a of
        Inl e \<Rightarrow> (db, Inl e)
      | Inr v \<Rightarrow> spCartAdd_write db v)"

text \<open>
  The cart table as the data model describes it: \<open>idCart\<close> identifies a line, no
  identity value beyond the last one handed out is in use, and the key
  (tenant, user, product, flavor, size) identifies a line.
\<close>

definition cart_key :: "cart_row \<Rightarrow> int \<times> int \<times> int \<times> int \<times> int" where
  "cart_key crt =
     (crt_idAccount crt, crt_idUser crt, crt_idProduct crt, crt_idFlavor crt, crt_idSize crt)"

definition cart_wf :: "database \<Rightarrow> bool" where
  "cart_wf db \<longleftrightarrow>
     distinct (map crt_idCart (tbl_cart db))
     \<and> list_all (\<lambda>crt. crt_idCart crt \<le> cart_identity db) (tbl_cart db)
     \<and> distinct (map cart_key (tbl_cart db))"

text \<open>
  The catalog as the data model describes it: the tenant and the id identify a product,
  the tenant and the id identify a size, and a size offered for a product is a size of
  the catalog (the join row refers to it).
\<close>

definition catalog_wf :: "database \<Rightarrow> bool" where
  "catalog_wf db \<longleftrightarrow>
     distinct (map (\<lambda>prd. (prd_idAccount prd, prd_idProduct prd)) (tbl_product db))
     \<and> distinct (map (\<lambda>siz. (siz_idAccount siz, siz_idSize siz)) (tbl_size db))
     \<and> list_all (\<lambda>prdSiz.
           list_ex (\<lambda>siz. siz_idAccount siz = prdSiz_idAccount prdSiz
                      \<and> siz_idSize siz = prdSiz_idSize prdSiz) (tbl_size db))
         (tbl_productSize db)"

text \<open>
  The pricing rule as the specification words it: the promotional price if set, else the
  base price, plus the size's price modifier.
\<close>

definition spec_unit_price :: "product_row \<Rightarrow> size_row \<Rightarrow> int" where
  "spec_unit_price prd siz =
     (case prd_promotionalPrice prd of Some promo \<Rightarrow> promo | None \<Rightarrow> prd_basePrice prd)
       + siz_priceModifier siz"


text \<open>
  Two sessions calling the procedure at once, in the schedule where each has run its
  statements up to \<^verbatim>\<open>BEGIN TRY\<close> (the look-up of the line included: it stands
  before \<^verbatim>\<open>BEGIN TRAN\<close> and takes no lock hint) before either opens its transaction;
  the transactions then run one after the other. The result is the final store and the
  two sessions' outcomes.
\<close>

definition spCartAdd_interleaved ::
  "database \<Rightarrow> cart_add_params \<Rightarrow> cart_add_params
     \<Rightarrow> database \<times> (sql_error + cart_item list) \<times> (sql_error + cart_item list)" where
  "spCartAdd_interleaved db a1 a2 =
     (case spCartAdd_read db a1 of
        Inl e1 \<Rightarrow> (case spCartAdd db a2 of (db2, r2) \<Rightarrow> (db2, Inl e1, r2))
      | Inr v1 \<Rightarrow>
          (case spCartAdd_read db a2 of
             Inl e2 \<Rightarrow> (case spCartAdd_write db v1 of (db1, r1) \<Rightarrow> (db1, r1, Inl e2))
           | Inr v2 \<Rightarrow>
               (case spCartAdd_write db v1 of (db1, r1) \<Rightarrow>
                  (case spCartAdd_write db1 v2 of (db2, r2) \<Rightarrow> (db2, r1, r2)))))"

section \<open>Collation and ordering\<close>

text \<open>
  How strings match a \<^verbatim>\<open>LIKE\<close> pattern and how \<^verbatim>\<open>ORDER BY\<close> compares them is
  fixed by the collation of the columns, which the table declarations (not among the
  sources) choose. The procedures take it as a parameter: \<open>coll_like c s p\<close> is
  \<^verbatim>\<open>s LIKE p\<close>, and \<open>coll_le c s t\<close> holds when \<open>s\<close> sorts no later than \<open>t\<close>.
\<close>

record collation =
  coll_like :: "string \<Rightarrow> string \<Rightarrow> bool"
  coll_le :: "string \<Rightarrow> string \<Rightarrow> bool"

text \<open>
  \<^verbatim>\<open>ORDER BY\<close> as a stable insertion sort: \<open>le x y\<close> holds when \<open>x\<close> may stand before
  \<open>y\<close>. Rows that the sort keys do not separate keep their scan order (the engine
  promises no order between them).
\<close>

fun insert_by :: "('a \<Rightarrow> 'a \<Rightarrow> bool) \<Rightarrow> 'a \<Rightarrow> 'a list \<Rightarrow> 'a list" where
  "insert_by le x [] = [x]"
| "insert_by le x (y # ys) = (if le x y then x # y # ys else y # insert_by le x ys)"

definition order_by :: "('a \<Rightarrow> 'a \<Rightarrow> bool) \<Rightarrow> 'a list \<Rightarrow> 'a list" where
  "order_by le xs = foldr (insert_by le) xs []"

definition total_preorder :: "('a \<Rightarrow> 'a \<Rightarrow> bool) \<Rightarrow> bool" where
  "total_preorder le \<longleftrightarrow> (\<forall>x y. le x y \<or> le y x) \<and> (\<forall>x y z. le x y \<and> le y z \<longrightarrow> le x z)"

text \<open>
  \<^verbatim>\<open>@ids IS NULL OR x IN (SELECT CAST([value] AS INT) FROM STRING_SPLIT(@ids, ','))\<close>.
  The parameter holds the list of integers that \<^verbatim>\<open>STRING_SPLIT\<close> and \<^verbatim>\<open>CAST\<close>
  yield from the comma-separated text the service built with \<^verbatim>\<open>join(',')\<close>;
  \<open>None\<close> is NULL.
\<close>

definition in_ids :: "int list option \<Rightarrow> int \<Rightarrow> bool" where
  "in_ids ids x = (case ids of None \<Rightarrow> True | Some xs \<Rightarrow> x \<in> set xs)"

section \<open>spProductList\<close>

text \<open>
  The parameters as \<^verbatim>\<open>productList\<close>, the procedure's caller, passes them: \<^verbatim>\<open>@page\<close>,
  \<^verbatim>\<open>@pageSize\<close>, \<^verbatim>\<open>@sortBy\<close> and \<^verbatim>\<open>@availableOnly\<close> always hold a value
  (\<^verbatim>\<open>params.page || 1\<close>, \<^verbatim>\<open>params.pageSize || 12\<close>,
  \<^verbatim>\<open>params.sortBy || 'relevancia'\<close>, 0 or 1); the tenant and the filters may be NULL.
\<close>

record product_list_params =
  pl_idAccount :: "int option"
  pl_page :: int
  pl_pageSize :: int
  pl_sortBy :: string
  pl_categoryIds :: "int list option"
  pl_flavorIds :: "int list option"
  pl_sizeIds :: "int list option"
  pl_minPrice :: "int option"
  pl_maxPrice :: "int option"
  pl_confectionerIds :: "int list option"
  pl_searchTerm :: "string option"
  pl_availableOnly :: bool

record product_list_item =
  pli_idProduct :: int
  pli_name :: string
  pli_description :: string
  pli_basePrice :: int
  pli_promotionalPrice :: "int option"
  pli_mainImage :: string
  pli_averageRating :: int
  pli_totalReviews :: int
  pli_preparationTime :: string
  pli_available :: bool
  pli_confectionerName :: string
  pli_categoryName :: string

definition product_list_item_of ::
  "product_row \<Rightarrow> confectioner_row \<Rightarrow> category_row \<Rightarrow> product_list_item" where
  "product_list_item_of prd cnf cat =
     \<lparr>pli_idProduct = prd_idProduct prd, pli_name = prd_name prd,
      pli_description = prd_description prd, pli_basePrice = prd_basePrice prd,
      pli_promotionalPrice = prd_promotionalPrice prd, pli_mainImage = prd_mainImage prd,
      pli_averageRating = prd_averageRating prd, pli_totalReviews = prd_totalReviews prd,
      pli_preparationTime = prd_preparationTime prd, pli_available = prd_available prd,
      pli_confectionerName = cnf_name cnf, pli_categoryName = cat_name cat\<rparr>"

text \<open>The conditions of the \<^verbatim>\<open>WHERE\<close> clause that read the product row alone.\<close>

definition search_matches :: "collation \<Rightarrow> string option \<Rightarrow> product_row \<Rightarrow> bool" where
  "search_matches c searchTerm prd =
     (case searchTerm of
        None \<Rightarrow> True
      | Some t \<Rightarrow>
          coll_like c (prd_name prd) (''%'' @ t @ ''%'')
          \<or> coll_like c (prd_description prd) (''%'' @ t @ ''%'')
          \<or> (case prd_ingredients prd of
                None \<Rightarrow> False
              | Some ingredients \<Rightarrow> coll_like c ingredients (''%'' @ t @ ''%'')))"

definition has_available_flavor :: "database \<Rightarrow> int list option \<Rightarrow> product_row \<Rightarrow> bool" where
  "has_available_flavor db flavorIds prd =
     (case flavorIds of
        None \<Rightarrow> True
      | Some ids \<Rightarrow>
          list_ex (\<lambda>prdFlv. prdFlv_idAccount prdFlv = prd_idAccount prd
                      \<and> prdFlv_idProduct prdFlv = prd_idProduct prd
                      \<and> prdFlv_idFlavor prdFlv \<in> set ids
                      \<and> prdFlv_available prdFlv = True)
            (tbl_productFlavor db))"

definition has_available_size :: "database \<Rightarrow> int list option \<Rightarrow> product_row \<Rightarrow> bool" where
  "has_available_size db sizeIds prd =
     (case sizeIds of
        None \<Rightarrow> True
      | Some ids \<Rightarrow>
          list_ex (\<lambda>prdSiz. prdSiz_idAccount prdSiz = prd_idAccount prd
                      \<and> prdSiz_idProduct prdSiz = prd_idProduct prd
                      \<and> prdSiz_idSize prdSiz \<in> set ids
                      \<and> prdSiz_available prdSiz = True)
            (tbl_productSize db))"

definition product_list_where ::
  "collation \<Rightarrow> database \<Rightarrow> product_list_params \<Rightarrow> int \<Rightarrow> product_row \<Rightarrow> bool" where
  "product_list_where c db a idAccount prd \<longleftrightarrow>
     prd_idAccount prd = idAccount
     \<and> prd_deleted prd = False
     \<and> prd_active prd = True
     \<and> (pl_availableOnly a = False \<or> prd_available prd = True)
     \<and> in_ids (pl_categoryIds a) (prd_idCategory prd)
     \<and> in_ids (pl_confectionerIds a) (prd_idConfectioner prd)
     \<and> (case pl_minPrice a of None \<Rightarrow> True | Some minPrice \<Rightarrow> prd_basePrice prd \<ge> minPrice)
     \<and> (case pl_maxPrice a of None \<Rightarrow> True | Some maxPrice \<Rightarrow> prd_basePrice prd \<le> maxPrice)
     \<and> search_matches c (pl_searchTerm a) prd
     \<and> has_available_flavor db (pl_flavorIds a) prd
     \<and> has_available_size db (pl_sizeIds a) prd"

text \<open>
  The common table expression \<^verbatim>\<open>FilteredProducts\<close>: the product table joined with its
  confectioner and its category, under the \<^verbatim>\<open>WHERE\<close> clause.
\<close>

definition FilteredProducts ::
  "collation \<Rightarrow> database \<Rightarrow> product_list_params \<Rightarrow> int \<Rightarrow> product_list_item list" where
  "FilteredProducts c db a idAccount =
     [product_list_item_of prd cnf cat.
        prd \<leftarrow> tbl_product db,
        cnf \<leftarrow> tbl_confectioner db,
        cnf_idAccount cnf = prd_idAccount prd \<and> cnf_idConfectioner cnf = prd_idConfectioner prd,
        cat \<leftarrow> tbl_category db,
        cat_idAccount cat = prd_idAccount prd \<and> cat_idCategory cat = prd_idCategory prd,
        product_list_where c db a idAccount prd \<and> cnf_deleted cnf = False \<and> cat_deleted cat = False]"

text \<open>
  The \<^verbatim>\<open>ORDER BY\<close> list: each \<^verbatim>\<open>CASE WHEN @sortBy = ... THEN column END\<close> is NULL in
  every row unless \<^verbatim>\<open>@sortBy\<close> names it, so it separates two rows only then; the
  name decides last. \<^verbatim>\<open>@sortBy\<close> equals a literal when it is the same string (the
  controller admits the lower-case keys only).
\<close>

definition product_list_le ::
  "collation \<Rightarrow> string \<Rightarrow> product_list_item \<Rightarrow> product_list_item \<Rightarrow> bool" where
  "product_list_le c sortBy r1 r2 =
     (if sortBy = ''preco_menor'' \<and> pli_basePrice r1 \<noteq> pli_basePrice r2
        then pli_basePrice r1 < pli_basePrice r2
      else if sortBy = ''preco_maior'' \<and> pli_basePrice r1 \<noteq> pli_basePrice r2
        then pli_basePrice r2 < pli_basePrice r1
      else if sortBy = ''melhor_avaliados'' \<and> pli_averageRating r1 \<noteq> pli_averageRating r2
        then pli_averageRating r2 < pli_averageRating r1
      else if sortBy = ''relevancia'' \<and> pli_averageRating r1 \<noteq> pli_averageRating r2
        then pli_averageRating r2 < pli_averageRating r1
      else coll_le c (pli_name r1) (pli_name r2))"

text \<open>
  \<^verbatim>\<open>CEILING(CAST(COUNT(*) AS FLOAT) / @pageSize)\<close>: the quotient of two integers
  rounded up (the floating-point quotient is exact enough for every count a table can
  hold).
\<close>

definition ceiling_div :: "int \<Rightarrow> int \<Rightarrow> int" where
  "ceiling_div n d = - ((- n) div d)"

text \<open>
  The two result sets of the procedure, each present once its \<^verbatim>\<open>SELECT\<close> has run.
\<close>

record pagination_row =
  pag_totalCount :: int
  pag_totalPages :: int

record product_list_recordsets =
  rs_products :: "product_list_item list option"
  rs_pagination :: "pagination_row list option"

text \<open>
  The procedure has two statements after its validations. The first is
  \<^verbatim>\<open>WITH [FilteredProducts] AS (...) SELECT ... FROM [FilteredProducts] ORDER BY ...
  OFFSET @offset ROWS FETCH NEXT @pageSize ROWS ONLY\<close> and sends the page. The second,
  \<^verbatim>\<open>SELECT COUNT(*) ..., CEILING(...) ... FROM [FilteredProducts]\<close>, has no
  \<^verbatim>\<open>WITH\<close> clause of its own.
\<close>

definition spProductList ::
  "collation \<Rightarrow> database \<Rightarrow> product_list_params \<Rightarrow> product_list_recordsets execution" where
  "spProductList c db a =
     (let nothing = \<lparr>rs_products = None, rs_pagination = None\<rparr> in
      case pl_idAccount a of
        None \<Rightarrow> \<lparr>recordsets = nothing, raised = Some (THROW 51000 ''idAccountRequired'' 1)\<rparr>
      | Some idAccount \<Rightarrow>
          if pl_page a < 1
          then \<lparr>recordsets = nothing, raised = Some (THROW 51000 ''invalidPageNumber'' 1)\<rparr>
          else
            let pageSize = (if pl_pageSize a \<notin> {12, 24, 36} then 12 else pl_pageSize a);
                offset = (pl_page a - 1) * pageSize
            in if offset > 2147483647 then \<lparr>recordsets = nothing, raised = Some ArithmeticOverflow\<rparr>
               else
                 (case from_cte [(''FilteredProducts'', FilteredProducts c db a idAccount)]
                         ''FilteredProducts'' of
                    Inl e \<Rightarrow> \<lparr>recordsets = nothing, raised = Some e\<rparr>
                  | Inr rows \<Rightarrow>
                      let products =
                            take (nat pageSize)
                              (drop (nat offset) (order_by (product_list_le c (pl_sortBy a)) rows))
                      in (case from_cte ([] :: (string \<times> product_list_item list) list)
                                 ''FilteredProducts'' of
                            Inl e \<Rightarrow>
                              \<lparr>recordsets = \<lparr>rs_products = Some products, rs_pagination = None\<rparr>,
                               raised = Some e\<rparr>
                          | Inr counted \<Rightarrow>
                              \<lparr>recordsets =
                                 \<lparr>rs_products = Some products,
                                  rs_pagination =
                                    Some [\<lparr>pag_totalCount = int (length counted),
                                           pag_totalPages =
                                             ceiling_div (int (length counted)) pageSize\<rparr>]\<rparr>,
                               raised = None\<rparr>)))"

section \<open>The service's reading of result sets\<close>

text \<open>
  The service functions of \<^verbatim>\<open>productRules.ts\<close> call a procedure through
  \<^verbatim>\<open>dbRequest\<close> and build their answer from what it returns. A call either returns
  or throws: the error of the stored procedure (\<^verbatim>\<open>request.execute\<close> rejects when
  the procedure raises an error, whatever result sets came before it), a
  \<^verbatim>\<open>SyntaxError\<close> of \<^verbatim>\<open>JSON.parse\<close>, or a \<^verbatim>\<open>TypeError\<close> on reading a property
  of \<^verbatim>\<open>undefined\<close>.
\<close>

datatype js_error = DbError sql_error | SyntaxError | TypeError

text \<open>
  With \<^verbatim>\<open>ExpectedReturn.Multi\<close>, \<^verbatim>\<open>dbRequest\<close> returns
  \<^verbatim>\<open>result.recordsets\<close>, or an object that gives \<^verbatim>\<open>result.recordsets[index]\<close> the
  name listed at that index. In the \<^verbatim>\<open>mssql\<close> driver each element of
  \<^verbatim>\<open>recordsets\<close> is the array of the rows of one result set, and
  \<^verbatim>\<open>recordsets[index]\<close> is \<^verbatim>\<open>undefined\<close> when the procedure sent fewer sets. A
  value that may be \<^verbatim>\<open>undefined\<close> is an \<open>option\<close>, \<open>None\<close> being
  \<^verbatim>\<open>undefined\<close>.

  The service casts these values to its own interface \<^verbatim>\<open>IRecordSet\<close> and reads
  their property \<^verbatim>\<open>recordset\<close>. The cast changes nothing at run time:
  \<open>recordset_of x\<close> is \<^verbatim>\<open>x.recordset\<close>, which throws when \<open>x\<close> is
  \<^verbatim>\<open>undefined\<close> and is \<^verbatim>\<open>undefined\<close> when \<open>x\<close> is an array of rows, an array
  having no property of that name. \<open>element0 xs\<close> is \<^verbatim>\<open>xs[0]\<close>.
\<close>

definition recordset_of :: "'r list option \<Rightarrow> js_error + 'r list option" where
  "recordset_of x = (case x of None \<Rightarrow> Inl TypeError | Some rows \<Rightarrow> Inr None)"

definition element0 :: "'r list option \<Rightarrow> js_error + 'r option" where
  "element0 xs =
     (case xs of
        None \<Rightarrow> Inl TypeError
      | Some rows \<Rightarrow> Inr (case rows of [] \<Rightarrow> None | r # _ \<Rightarrow> Some r))"

text \<open>
  \<^verbatim>\<open>x || d\<close> for an optional number and for an optional string: \<^verbatim>\<open>undefined\<close>,
  0 and the empty string are falsy.
\<close>

definition or_number :: "int option \<Rightarrow> int \<Rightarrow> int" where
  "or_number x d = (case x of None \<Rightarrow> d | Some v \<Rightarrow> if v = 0 then d else v)"

definition or_string :: "string option \<Rightarrow> string \<Rightarrow> string" where
  "or_string x d = (case x of None \<Rightarrow> d | Some v \<Rightarrow> if v = [] then d else v)"

definition number_or_null :: "int option \<Rightarrow> int option" where
  "number_or_null x = (case x of None \<Rightarrow> None | Some v \<Rightarrow> if v = 0 then None else Some v)"

definition string_or_null :: "string option \<Rightarrow> string option" where
  "string_or_null x = (case x of None \<Rightarrow> None | Some v \<Rightarrow> if v = [] then None else Some v)"

text \<open>
  \<^verbatim>\<open>ids?.join(',') || null\<close>: no list and the empty list (whose join is the empty
  string) give NULL; any other list gives the text that the procedure splits into the
  same integers again.
\<close>

definition join_or_null :: "int list option \<Rightarrow> int list option" where
  "join_or_null ids = (case ids of None \<Rightarrow> None | Some xs \<Rightarrow> if xs = [] then None else Some xs)"

subsection \<open>productList\<close>

text \<open>The interface \<^verbatim>\<open>ProductListParams\<close>; an optional field is an \<open>option\<close>.\<close>

record ProductListParams =
  plp_idAccount :: int
  plp_page :: "int option"
  plp_pageSize :: "int option"
  plp_sortBy :: "string option"
  plp_categoryIds :: "int list option"
  plp_flavorIds :: "int list option"
  plp_sizeIds :: "int list option"
  plp_minPrice :: "int option"
  plp_maxPrice :: "int option"
  plp_confectionerIds :: "int list option"
  plp_searchTerm :: "string option"
  plp_availableOnly :: "bool option"

text \<open>The parameter object that \<^verbatim>\<open>productList\<close> hands to the procedure.\<close>

definition productList_parameters :: "ProductListParams \<Rightarrow> product_list_params" where
  "productList_parameters params =
     \<lparr>pl_idAccount = Some (plp_idAccount params),
      pl_page = or_number (plp_page params) 1,
      pl_pageSize = or_number (plp_pageSize params) 12,
      pl_sortBy = or_string (plp_sortBy params) ''relevancia'',
      pl_categoryIds = join_or_null (plp_categoryIds params),
      pl_flavorIds = join_or_null (plp_flavorIds params),
      pl_sizeIds = join_or_null (plp_sizeIds params),
      pl_minPrice = number_or_null (plp_minPrice params),
      pl_maxPrice = number_or_null (plp_maxPrice params),
      pl_confectionerIds = join_or_null (plp_confectionerIds params),
      pl_searchTerm = string_or_null (plp_searchTerm params),
      pl_availableOnly = (case plp_availableOnly params of None \<Rightarrow> True | Some b \<Rightarrow> b)\<rparr>"

record ProductListResponse =
  plr_products :: "product_list_item list option"
  plr_totalCount :: int
  plr_totalPages :: int
  plr_currentPage :: int
  plr_pageSize :: int

text \<open>
  \<^verbatim>\<open>productList\<close>: the call, under the names \<^verbatim>\<open>products\<close> and
  \<^verbatim>\<open>pagination\<close> for the two result sets, then the object literal of the
  \<^verbatim>\<open>return\<close> statement, its properties evaluated in order.
\<close>

definition productList ::
  "collation \<Rightarrow> database \<Rightarrow> ProductListParams \<Rightarrow> js_error + ProductListResponse" where
  "productList c db params =
     (let run = spProductList c db (productList_parameters params) in
      case raised run of
        Some e \<Rightarrow> Inl (DbError e)
      | None \<Rightarrow>
     (let result = recordsets run in
      case recordset_of (rs_products result) of
        Inl e \<Rightarrow> Inl e
      | Inr products \<Rightarrow>
     (case recordset_of (rs_pagination result) of
        Inl e \<Rightarrow> Inl e
      | Inr pagination \<Rightarrow>
     (case element0 pagination of
        Inl e \<Rightarrow> Inl e
      | Inr None \<Rightarrow> Inl TypeError
      | Inr (Some row) \<Rightarrow>
          Inr \<lparr>plr_products = products,
               plr_totalCount = pag_totalCount row,
               plr_totalPages = pag_totalPages row,
               plr_currentPage = or_number (plp_page params) 1,
               plr_pageSize = or_number (plp_pageSize params) 12\<rparr>))))"

section \<open>spProductGet and productGet\<close>

record product_details_row =
  pdr_idProduct :: int
  pdr_name :: string
  pdr_description :: string
  pdr_ingredients :: "string option"
  pdr_nutritionalInfo :: "string option"
  pdr_basePrice :: int
  pdr_promotionalPrice :: "int option"
  pdr_mainImage :: string
  pdr_imageGallery :: "string option"
  pdr_averageRating :: int
  pdr_totalReviews :: int
  pdr_preparationTime :: string
  pdr_available :: bool
  pdr_idConfectioner :: int
  pdr_confectionerName :: string
  pdr_confectionerPhoto :: "string option"
  pdr_confectionerRating :: int
  pdr_confectionerProductsSold :: int

record flavor_option =
  fo_idFlavor :: int
  fo_name :: string
  fo_available :: bool

record size_option =
  so_idSize :: int
  so_name :: string
  so_description :: string
  so_priceModifier :: int
  so_available :: bool

record review_item =
  ri_idReview :: int
  ri_customerName :: string
  ri_rating :: int
  ri_comment :: "string option"
  ri_dateCreated :: int

record product_get_result =
  pg_product :: "product_details_row list"
  pg_flavors :: "flavor_option list"
  pg_sizes :: "size_option list"
  pg_reviews :: "review_item list"

definition product_details_row_of :: "product_row \<Rightarrow> confectioner_row \<Rightarrow> product_details_row" where
  "product_details_row_of prd cnf =
     \<lparr>pdr_idProduct = prd_idProduct prd, pdr_name = prd_name prd,
      pdr_description = prd_description prd, pdr_ingredients = prd_ingredients prd,
      pdr_nutritionalInfo = prd_nutritionalInfo prd, pdr_basePrice = prd_basePrice prd,
      pdr_promotionalPrice = prd_promotionalPrice prd, pdr_mainImage = prd_mainImage prd,
      pdr_imageGallery = prd_imageGallery prd, pdr_averageRating = prd_averageRating prd,
      pdr_totalReviews = prd_totalReviews prd, pdr_preparationTime = prd_preparationTime prd,
      pdr_available = prd_available prd, pdr_idConfectioner = cnf_idConfectioner cnf,
      pdr_confectionerName = cnf_name cnf, pdr_confectionerPhoto = cnf_photo cnf,
      pdr_confectionerRating = cnf_averageRating cnf,
      pdr_confectionerProductsSold = cnf_totalProductsSold cnf\<rparr>"

text \<open>The four result sets, each in the order of its \<^verbatim>\<open>ORDER BY\<close>.\<close>

definition product_details_rows :: "database \<Rightarrow> int \<Rightarrow> int \<Rightarrow> product_details_row list" where
  "product_details_rows db idAccount idProduct =
     [product_details_row_of prd cnf.
        prd \<leftarrow> tbl_product db,
        cnf \<leftarrow> tbl_confectioner db,
        cnf_idAccount cnf = prd_idAccount prd \<and> cnf_idConfectioner cnf = prd_idConfectioner prd,
        prd_idProduct prd = idProduct \<and> prd_idAccount prd = idAccount \<and> prd_deleted prd = False]"

definition product_flavors :: "database \<Rightarrow> int \<Rightarrow> int \<Rightarrow> flavor_option list" where
  "product_flavors db idAccount idProduct =
     [\<lparr>fo_idFlavor = flv_idFlavor flv, fo_name = flv_name flv,
       fo_available = prdFlv_available prdFlv\<rparr>.
        prdFlv \<leftarrow> tbl_productFlavor db,
        flv \<leftarrow> tbl_flavor db,
        flv_idAccount flv = prdFlv_idAccount prdFlv \<and> flv_idFlavor flv = prdFlv_idFlavor prdFlv,
        prdFlv_idAccount prdFlv = idAccount \<and> prdFlv_idProduct prdFlv = idProduct
          \<and> flv_deleted flv = False]"

definition product_sizes :: "database \<Rightarrow> int \<Rightarrow> int \<Rightarrow> size_option list" where
  "product_sizes db idAccount idProduct =
     [\<lparr>so_idSize = siz_idSize siz, so_name = siz_name siz, so_description = siz_description siz,
       so_priceModifier = siz_priceModifier siz, so_available = prdSiz_available prdSiz\<rparr>.
        prdSiz \<leftarrow> tbl_productSize db,
        siz \<leftarrow> tbl_size db,
        siz_idAccount siz = prdSiz_idAccount prdSiz \<and> siz_idSize siz = prdSiz_idSize prdSiz,
        prdSiz_idAccount prdSiz = idAccount \<and> prdSiz_idProduct prdSiz = idProduct
          \<and> siz_deleted siz = False]"

definition product_reviews :: "database \<Rightarrow> int \<Rightarrow> int \<Rightarrow> review_item list" where
  "product_reviews db idAccount idProduct =
     [\<lparr>ri_idReview = rev_idReview rvw, ri_customerName = rev_customerName rvw,
       ri_rating = rev_rating rvw, ri_comment = rev_comment rvw,
       ri_dateCreated = rev_dateCreated rvw\<rparr>.
        rvw \<leftarrow> tbl_review db,
        rev_idAccount rvw = idAccount \<and> rev_idProduct rvw = idProduct \<and> rev_deleted rvw = False]"

definition spProductGet ::
  "collation \<Rightarrow> database \<Rightarrow> int option \<Rightarrow> int option \<Rightarrow> sql_error + product_get_result" where
  "spProductGet c db idAccount' idProduct' =
     (case idAccount' of
        None \<Rightarrow> Inl (THROW 51000 ''idAccountRequired'' 1)
      | Some idAccount \<Rightarrow>
     (case idProduct' of
        None \<Rightarrow> Inl (THROW 51000 ''idProductRequired'' 1)
      | Some idProduct \<Rightarrow>
          if \<not> list_ex (\<lambda>prd. prd_idProduct prd = idProduct \<and> prd_idAccount prd = idAccount
                            \<and> prd_deleted prd = False) (tbl_product db)
          then Inl (THROW 51000 ''productNotFound'' 1)
          else Inr \<lparr>pg_product = product_details_rows db idAccount idProduct,
                    pg_flavors = order_by (\<lambda>x y. coll_le c (fo_name x) (fo_name y))
                                   (product_flavors db idAccount idProduct),
                    pg_sizes = order_by (\<lambda>x y. so_priceModifier x \<le> so_priceModifier y)
                                 (product_sizes db idAccount idProduct),
                    pg_reviews = order_by (\<lambda>x y. ri_dateCreated y \<le> ri_dateCreated x)
                                   (product_reviews db idAccount idProduct)\<rparr>))"

text \<open>The values a decoded JSON text can have.\<close>

datatype json =
  JNull
  | JBool bool
  | JNumber int
  | JString string
  | JArray "json list"
  | JObject "(string \<times> json) list"

text \<open>
  \<^verbatim>\<open>JSON.parse(x)\<close> for a column value \<open>x\<close>. The decoder of JSON texts is a parameter
  (\<open>None\<close> is its \<^verbatim>\<open>SyntaxError\<close>); the argument is first converted to a string, which
  turns \<^verbatim>\<open>null\<close> into the text \<^verbatim>\<open>null\<close>.
\<close>

definition JSON_parse :: "(string \<Rightarrow> json option) \<Rightarrow> string option \<Rightarrow> js_error + json" where
  "JSON_parse decode x =
     (case decode (case x of None \<Rightarrow> ''null'' | Some s \<Rightarrow> s) of
        None \<Rightarrow> Inl SyntaxError
      | Some v \<Rightarrow> Inr v)"

text \<open>The truth value of a nullable string: NULL and the empty string are falsy.\<close>

definition truthy :: "string option \<Rightarrow> bool" where
  "truthy x = (case x of None \<Rightarrow> False | Some s \<Rightarrow> s \<noteq> [])"

record ProductDetailsResponse =
  pd_product :: product_details_row
  pd_ingredients :: json
  pd_nutritionalInfo :: json
  pd_imageGallery :: json
  pd_flavors :: "flavor_option list option"
  pd_sizes :: "size_option list option"
  pd_reviews :: "review_item list option"

text \<open>
  The object literal of the \<^verbatim>\<open>return\<close> statement of \<^verbatim>\<open>productGet\<close>, for the
  value \<open>product\<close> of the constant \<^verbatim>\<open>product\<close>: the properties of the row, then
  \<^verbatim>\<open>ingredients\<close> decoded unconditionally, \<^verbatim>\<open>nutritionalInfo\<close> and
  \<^verbatim>\<open>imageGallery\<close> decoded when truthy, and the property \<^verbatim>\<open>recordset\<close> of the
  three other result sets.
\<close>

definition product_details_literal ::
  "(string \<Rightarrow> json option) \<Rightarrow> product_details_row option \<Rightarrow> product_get_result
     \<Rightarrow> js_error + ProductDetailsResponse" where
  "product_details_literal decode product' result =
     (case product' of
        None \<Rightarrow> Inl TypeError
      | Some product \<Rightarrow>
     (case JSON_parse decode (pdr_ingredients product) of
        Inl e \<Rightarrow> Inl e
      | Inr ingredients \<Rightarrow>
     (case (if truthy (pdr_nutritionalInfo product)
            then JSON_parse decode (pdr_nutritionalInfo product) else Inr JNull) of
        Inl e \<Rightarrow> Inl e
      | Inr nutritionalInfo \<Rightarrow>
     (case (if truthy (pdr_imageGallery product)
            then JSON_parse decode (pdr_imageGallery product) else Inr (JArray [])) of
        Inl e \<Rightarrow> Inl e
      | Inr imageGallery \<Rightarrow>
     (case recordset_of (Some (pg_flavors result)) of
        Inl e \<Rightarrow> Inl e
      | Inr flavors \<Rightarrow>
     (case recordset_of (Some (pg_sizes result)) of
        Inl e \<Rightarrow> Inl e
      | Inr sizes \<Rightarrow>
     (case recordset_of (Some (pg_reviews result)) of
        Inl e \<Rightarrow> Inl e
      | Inr reviews \<Rightarrow>
          Inr \<lparr>pd_product = product, pd_ingredients = ingredients,
               pd_nutritionalInfo = nutritionalInfo, pd_imageGallery = imageGallery,
               pd_flavors = flavors, pd_sizes = sizes, pd_reviews = reviews\<rparr>)))))))"

text \<open>
  \<^verbatim>\<open>productGet\<close>: the call, under the names \<^verbatim>\<open>product\<close>, \<^verbatim>\<open>flavors\<close>,
  \<^verbatim>\<open>sizes\<close> and \<^verbatim>\<open>reviews\<close> for the four result sets;
  \<^verbatim>\<open>const product = result.product.recordset[0]\<close>; the object literal.
\<close>

definition productGet ::
  "(string \<Rightarrow> json option) \<Rightarrow> collation \<Rightarrow> database \<Rightarrow> int \<Rightarrow> int
     \<Rightarrow> js_error + ProductDetailsResponse" where
  "productGet decode c db idAccount idProduct =
     (case spProductGet c db (Some idAccount) (Some idProduct) of
        Inl e \<Rightarrow> Inl (DbError e)
      | Inr result \<Rightarrow>
     (case recordset_of (Some (pg_product result)) of
        Inl e \<Rightarrow> Inl e
      | Inr recordset \<Rightarrow>
     (case element0 recordset of
        Inl e \<Rightarrow> Inl e
      | Inr product \<Rightarrow> product_details_literal decode product result)))"

section \<open>spProductRelated and productRelated\<close>

record related_row =
  rr_idProduct :: int
  rr_name :: string
  rr_basePrice :: int
  rr_promotionalPrice :: "int option"
  rr_mainImage :: string
  rr_averageRating :: int
  rr_totalReviews :: int
  rr_confectionerName :: string

definition related_row_of :: "product_row \<Rightarrow> confectioner_row \<Rightarrow> related_row" where
  "related_row_of prd cnf =
     \<lparr>rr_idProduct = prd_idProduct prd, rr_name = prd_name prd, rr_basePrice = prd_basePrice prd,
      rr_promotionalPrice = prd_promotionalPrice prd, rr_mainImage = prd_mainImage prd,
      rr_averageRating = prd_averageRating prd, rr_totalReviews = prd_totalReviews prd,
      rr_confectionerName = cnf_name cnf\<rparr>"

text \<open>
  The reference product's category and confectioner, both assigned from one row by one
  \<^verbatim>\<open>SELECT\<close>.
\<close>

definition reference_product :: "database \<Rightarrow> int \<Rightarrow> int \<Rightarrow> (int \<times> int) option" where
  "reference_product db idAccount idProduct =
     select_into None
       (map (\<lambda>prd. Some (prd_idCategory prd, prd_idConfectioner prd))
          (filter (\<lambda>prd. prd_idProduct prd = idProduct \<and> prd_idAccount prd = idAccount
                     \<and> prd_deleted prd = False) (tbl_product db)))"

text \<open>The conditions both queries share.\<close>

definition related_candidate :: "int \<Rightarrow> int \<Rightarrow> product_row \<Rightarrow> confectioner_row \<Rightarrow> bool" where
  "related_candidate idAccount idProduct prd cnf \<longleftrightarrow>
     prd_idAccount prd = idAccount \<and> prd_idProduct prd \<noteq> idProduct \<and> prd_deleted prd = False
     \<and> prd_active prd = True \<and> prd_available prd = True \<and> cnf_deleted cnf = False"

text \<open>
  The common table expression \<^verbatim>\<open>RelatedProducts\<close>: each row with its
  \<^verbatim>\<open>priority\<close> column.
\<close>

definition RelatedProducts ::
  "database \<Rightarrow> int \<Rightarrow> int \<Rightarrow> int \<Rightarrow> int \<Rightarrow> (int \<times> related_row) list" where
  "RelatedProducts db idAccount idProduct idCategory idConfectioner =
     [(if prd_idConfectioner prd = idConfectioner then 1
       else if prd_idCategory prd = idCategory then 2 else 3,
       related_row_of prd cnf).
        prd \<leftarrow> tbl_product db,
        cnf \<leftarrow> tbl_confectioner db,
        cnf_idAccount cnf = prd_idAccount prd \<and> cnf_idConfectioner cnf = prd_idConfectioner prd,
        related_candidate idAccount idProduct prd cnf
          \<and> (prd_idConfectioner prd = idConfectioner \<or> prd_idCategory prd = idCategory)]"

definition popular_le :: "related_row \<Rightarrow> related_row \<Rightarrow> bool" where
  "popular_le r1 r2 =
     (if rr_averageRating r1 \<noteq> rr_averageRating r2 then rr_averageRating r2 < rr_averageRating r1
      else rr_totalReviews r2 \<le> rr_totalReviews r1)"

definition related_le :: "int \<times> related_row \<Rightarrow> int \<times> related_row \<Rightarrow> bool" where
  "related_le x y =
     (if fst x \<noteq> fst y then fst x < fst y else popular_le (snd x) (snd y))"

definition PopularProducts ::
  "database \<Rightarrow> int \<Rightarrow> int \<Rightarrow> int list \<Rightarrow> related_row list" where
  "PopularProducts db idAccount idProduct related_ids =
     [related_row_of prd cnf.
        prd \<leftarrow> tbl_product db,
        cnf \<leftarrow> tbl_confectioner db,
        cnf_idAccount cnf = prd_idAccount prd \<and> cnf_idConfectioner cnf = prd_idConfectioner prd,
        related_candidate idAccount idProduct prd cnf \<and> prd_idProduct prd \<notin> set related_ids]"

text \<open>
  The procedure has two statements that send rows. The first is
  \<^verbatim>\<open>WITH [RelatedProducts] AS (...) SELECT TOP (@limit) ... FROM [RelatedProducts]
  ORDER BY ...\<close>. \<^verbatim>\<open>@@ROWCOUNT\<close> is the number of rows of the last statement: the
  first \<^verbatim>\<open>SELECT\<close> sets it, the \<^verbatim>\<open>IF\<close> reads it, and the \<^verbatim>\<open>IF\<close> statement
  itself resets it to 0, which is the value the
  \<^verbatim>\<open>DECLARE @remaining INT = @limit - @@ROWCOUNT\<close> inside the block reads. The
  second \<^verbatim>\<open>SELECT\<close>, inside the block, has no \<^verbatim>\<open>WITH\<close> clause of its own and
  names \<^verbatim>\<open>[RelatedProducts]\<close> in its \<^verbatim>\<open>NOT IN\<close> subquery. \<^verbatim>\<open>TOP\<close> of a
  negative number is an error of the engine.
\<close>

definition spProductRelated ::
  "database \<Rightarrow> int option \<Rightarrow> int option \<Rightarrow> int \<Rightarrow> related_row list list execution" where
  "spProductRelated db idAccount' idProduct' limit =
     (case idAccount' of
        None \<Rightarrow> \<lparr>recordsets = [], raised = Some (THROW 51000 ''idAccountRequired'' 1)\<rparr>
      | Some idAccount \<Rightarrow>
     (case idProduct' of
        None \<Rightarrow> \<lparr>recordsets = [], raised = Some (THROW 51000 ''idProductRequired'' 1)\<rparr>
      | Some idProduct \<Rightarrow>
     (case reference_product db idAccount idProduct of
        None \<Rightarrow> \<lparr>recordsets = [], raised = Some (THROW 51000 ''productNotFound'' 1)\<rparr>
      | Some (idCategory, idConfectioner) \<Rightarrow>
          if limit < 0 then \<lparr>recordsets = [], raised = Some InvalidTopValue\<rparr>
          else
            (case from_cte [(''RelatedProducts'',
                              RelatedProducts db idAccount idProduct idCategory idConfectioner)]
                    ''RelatedProducts'' of
               Inl e \<Rightarrow> \<lparr>recordsets = [], raised = Some e\<rparr>
             | Inr rows \<Rightarrow>
                 let first_set = take (nat limit) (map snd (order_by related_le rows));
                     rowcount = int (length first_set)
                 in if rowcount < limit
                    then
                      let rowcount_after_if = 0;
                          remaining = limit - rowcount_after_if
                      in (case from_cte ([] :: (string \<times> (int \<times> related_row) list) list)
                                 ''RelatedProducts'' of
                            Inl e \<Rightarrow> \<lparr>recordsets = [first_set], raised = Some e\<rparr>
                          | Inr related \<Rightarrow>
                              \<lparr>recordsets =
                                 [first_set,
                                  take (nat remaining)
                                    (order_by popular_le
                                       (PopularProducts db idAccount idProduct
                                          (map (\<lambda>r. rr_idProduct (snd r)) related)))],
                               raised = None\<rparr>)
                    else \<lparr>recordsets = [first_set], raised = None\<rparr>))))"

text \<open>
  \<^verbatim>\<open>productRelated\<close>: the parameter \<^verbatim>\<open>limit\<close> has the default 4; the call, with
  no names for the result sets, returns \<^verbatim>\<open>result.recordsets\<close>, and the function
  returns \<^verbatim>\<open>result[0].recordset\<close>.
\<close>

definition productRelated ::
  "database \<Rightarrow> int \<Rightarrow> int \<Rightarrow> int option \<Rightarrow> js_error + related_row list option" where
  "productRelated db idAccount idProduct limit' =
     (let limit = (case limit' of None \<Rightarrow> 4 | Some l \<Rightarrow> l);
          run = spProductRelated db (Some idAccount) (Some idProduct) limit
      in case raised run of
           Some e \<Rightarrow> Inl (DbError e)
         | None \<Rightarrow>
             let result = recordsets run
             in recordset_of (case result of [] \<Rightarrow> None | first_set # _ \<Rightarrow> Some first_set))"

text \<open>
  The products the specification calls eligible as related items: the active, available,
  non-deleted products of the tenant other than the reference product (joined, as in
  both queries, with a confectioner that is not deleted).
\<close>

definition eligible_products :: "database \<Rightarrow> int \<Rightarrow> int \<Rightarrow> related_row list" where
  "eligible_products db tenant reference =
     [related_row_of prd cnf.
        prd \<leftarrow> tbl_product db,
        cnf \<leftarrow> tbl_confectioner db,
        cnf_idAccount cnf = prd_idAccount prd \<and> cnf_idConfectioner cnf = prd_idConfectioner prd,
        prd_idAccount prd = tenant \<and> prd_idProduct prd \<noteq> reference \<and> \<not> prd_deleted prd
          \<and> prd_active prd \<and> prd_available prd \<and> \<not> cnf_deleted cnf]"


section \<open>A store to run the procedures on\<close>

text \<open>
  A tenant with two confectioners, two categories, two products on sale and one
  soft-deleted product; a product of another tenant. The first product is offered in two
  flavors (one withdrawn) and two sizes and has three reviews, one of them deleted. The
  cart is empty.
\<close>

definition example_products :: "product_row list" where
  "example_products =
     [\<lparr>prd_idProduct = 1, prd_idAccount = 1, prd_idConfectioner = 1, prd_idCategory = 1,
       prd_name = ''Bolo de cenoura'', prd_description = ''Bolo caseiro'',
       prd_ingredients = Some ''[\"cenoura\"]'', prd_nutritionalInfo = None,
       prd_basePrice = 100, prd_promotionalPrice = None, prd_mainImage = ''cenoura.png'',
       prd_imageGallery = None, prd_averageRating = 45, prd_totalReviews = 10,
       prd_preparationTime = ''2 dias'', prd_available = True, prd_active = True,
       prd_deleted = False\<rparr>,
      \<lparr>prd_idProduct = 2, prd_idAccount = 1, prd_idConfectioner = 2, prd_idCategory = 2,
       prd_name = ''Torta de limao'', prd_description = ''Torta gelada'',
       prd_ingredients = None, prd_nutritionalInfo = None,
       prd_basePrice = 80, prd_promotionalPrice = Some 70, prd_mainImage = ''limao.png'',
       prd_imageGallery = None, prd_averageRating = 50, prd_totalReviews = 3,
       prd_preparationTime = ''1 dia'', prd_available = True, prd_active = True,
       prd_deleted = False\<rparr>,
      \<lparr>prd_idProduct = 3, prd_idAccount = 1, prd_idConfectioner = 1, prd_idCategory = 1,
       prd_name = ''Bolo de fuba'', prd_description = ''Fora de linha'',
       prd_ingredients = Some ''[]'', prd_nutritionalInfo = None,
       prd_basePrice = 60, prd_promotionalPrice = None, prd_mainImage = ''fuba.png'',
       prd_imageGallery = None, prd_averageRating = 30, prd_totalReviews = 1,
       prd_preparationTime = ''1 dia'', prd_available = True, prd_active = True,
       prd_deleted = True\<rparr>,
      \<lparr>prd_idProduct = 4, prd_idAccount = 2, prd_idConfectioner = 1, prd_idCategory = 1,
       prd_name = ''Pudim'', prd_description = ''De outra loja'',
       prd_ingredients = Some ''[]'', prd_nutritionalInfo = None,
       prd_basePrice = 40, prd_promotionalPrice = None, prd_mainImage = ''pudim.png'',
       prd_imageGallery = None, prd_averageRating = 49, prd_totalReviews = 8,
       prd_preparationTime = ''1 dia'', prd_available = True, prd_active = True,
       prd_deleted = False\<rparr>]"

definition example_db :: database where
  "example_db =
     \<lparr>tbl_product = example_products,
      tbl_confectioner =
        [\<lparr>cnf_idConfectioner = 1, cnf_idAccount = 1, cnf_name = ''Ana'', cnf_photo = None,
          cnf_averageRating = 48, cnf_totalProductsSold = 120, cnf_deleted = False\<rparr>,
         \<lparr>cnf_idConfectioner = 2, cnf_idAccount = 1, cnf_name = ''Bia'', cnf_photo = None,
          cnf_averageRating = 41, cnf_totalProductsSold = 7, cnf_deleted = False\<rparr>],
      tbl_category =
        [\<lparr>cat_idCategory = 1, cat_idAccount = 1, cat_name = ''Bolos'', cat_deleted = False\<rparr>,
         \<lparr>cat_idCategory = 2, cat_idAccount = 1, cat_name = ''Tortas'', cat_deleted = False\<rparr>],
      tbl_flavor =
        [\<lparr>flv_idFlavor = 1, flv_idAccount = 1, flv_name = ''Chocolate'', flv_deleted = False\<rparr>,
         \<lparr>flv_idFlavor = 2, flv_idAccount = 1, flv_name = ''Baunilha'', flv_deleted = False\<rparr>],
      tbl_size =
        [\<lparr>siz_idSize = 1, siz_idAccount = 1, siz_name = ''Grande'',
          siz_description = ''20 fatias'', siz_priceModifier = 50, siz_deleted = False\<rparr>,
         \<lparr>siz_idSize = 2, siz_idAccount = 1, siz_name = ''Pequeno'',
          siz_description = ''8 fatias'', siz_priceModifier = 0, siz_deleted = False\<rparr>],
      tbl_productFlavor =
        [\<lparr>prdFlv_idAccount = 1, prdFlv_idProduct = 1, prdFlv_idFlavor = 1, prdFlv_available = True\<rparr>,
         \<lparr>prdFlv_idAccount = 1, prdFlv_idProduct = 1, prdFlv_idFlavor = 2, prdFlv_available = False\<rparr>,
         \<lparr>prdFlv_idAccount = 1, prdFlv_idProduct = 2, prdFlv_idFlavor = 1, prdFlv_available = True\<rparr>],
      tbl_productSize =
        [\<lparr>prdSiz_idAccount = 1, prdSiz_idProduct = 1, prdSiz_idSize = 1, prdSiz_available = True\<rparr>,
         \<lparr>prdSiz_idAccount = 1, prdSiz_idProduct = 1, prdSiz_idSize = 2, prdSiz_available = True\<rparr>,
         \<lparr>prdSiz_idAccount = 1, prdSiz_idProduct = 2, prdSiz_idSize = 2, prdSiz_available = True\<rparr>],
      tbl_review =
        [\<lparr>rev_idReview = 1, rev_idAccount = 1, rev_idProduct = 1, rev_customerName = ''Caio'',
          rev_rating = 5, rev_comment = None, rev_dateCreated = 100, rev_deleted = False\<rparr>,
         \<lparr>rev_idReview = 2, rev_idAccount = 1, rev_idProduct = 1, rev_customerName = ''Dora'',
          rev_rating = 4, rev_comment = Some ''Bom'', rev_dateCreated = 200, rev_deleted = False\<rparr>,
         \<lparr>rev_idReview = 3, rev_idAccount = 1, rev_idProduct = 1, rev_customerName = ''Enzo'',
          rev_rating = 1, rev_comment = None, rev_dateCreated = 300, rev_deleted = True\<rparr>],
      tbl_cart = [],
      cart_identity = 0\<rparr>"

definition example_add :: "int \<Rightarrow> string option \<Rightarrow> cart_add_params" where
  "example_add quantity notes =
     \<lparr>ca_idAccount = Some 1, ca_idUser = Some 1, ca_idProduct = Some 1, ca_idFlavor = Some 1,
      ca_idSize = Some 1, ca_quantity = Some quantity, ca_notes = notes\<rparr>"

definition example_line :: "int \<Rightarrow> cart_row" where
  "example_line quantity =
     \<lparr>crt_idCart = 1, crt_idAccount = 1, crt_idUser = 1, crt_idProduct = 1, crt_idFlavor = 1,
      crt_idSize = 1, crt_quantity = quantity, crt_unitPrice = Some 150,
      crt_totalPrice = Some (150 * quantity), crt_notes = Some ''sem acucar''\<rparr>"

definition example_cart_db :: "int \<Rightarrow> database" where
  "example_cart_db quantity = example_db\<lparr>tbl_cart := [example_line quantity], cart_identity := 1\<rparr>"

definition example_add_torta :: cart_add_params where
  "example_add_torta =
     \<lparr>ca_idAccount = Some 1, ca_idUser = Some 1, ca_idProduct = Some 2, ca_idFlavor = Some 1,
      ca_idSize = Some 2, ca_quantity = Some 2, ca_notes = None\<rparr>"

text \<open>A change of the catalog's prices between two calls.\<close>

definition reprice :: "int \<Rightarrow> database \<Rightarrow> database" where
  "reprice delta db =
     db\<lparr>tbl_product := map (\<lambda>prd. prd\<lparr>prd_basePrice := prd_basePrice prd + delta\<rparr>) (tbl_product db)\<rparr>"

text \<open>
  A collation to run the procedures with: strings compare by their character codes,
  and a pattern knows the wildcards \<^verbatim>\<open>%\<close> and \<^verbatim>\<open>_\<close>.
\<close>

fun string_le :: "string \<Rightarrow> string \<Rightarrow> bool" where
  "string_le [] ys = True"
| "string_le (x # xs) [] = False"
| "string_le (x # xs) (y # ys) =
     ((of_char x :: nat) < of_char y \<or> (x = y \<and> string_le xs ys))"

fun like_match :: "string \<Rightarrow> string \<Rightarrow> bool" where
  "like_match s [] = (s = [])"
| "like_match s (c # p) =
     (if c = CHR ''%''
      then like_match s p \<or> (case s of [] \<Rightarrow> False | x # s' \<Rightarrow> like_match s' (c # p))
      else (case s of [] \<Rightarrow> False | x # s' \<Rightarrow> (c = CHR ''_'' \<or> c = x) \<and> like_match s' p))"

definition binary_collation :: collation where
  "binary_collation = \<lparr>coll_like = like_match, coll_le = string_le\<rparr>"

text \<open>
  A decoder to run \<^verbatim>\<open>productGet\<close> with: it agrees with \<^verbatim>\<open>JSON.parse\<close> on the three
  texts the store above makes it read and rejects every other text.
\<close>

definition example_decode :: "string \<Rightarrow> json option" where
  "example_decode s =
     (if s = ''null'' then Some JNull
      else if s = ''[]'' then Some (JArray [])
      else if s = ''[\"cenoura\"]'' then Some (JArray [JString ''cenoura''])
      else None)"

definition example_list_params :: product_list_params where
  "example_list_params =
     \<lparr>pl_idAccount = Some 1, pl_page = 1, pl_pageSize = 12, pl_sortBy = ''relevancia'',
      pl_categoryIds = None, pl_flavorIds = None, pl_sizeIds = None, pl_minPrice = None,
      pl_maxPrice = None, pl_confectionerIds = None, pl_searchTerm = None,
      pl_availableOnly = True\<rparr>"


definition example_filter_params :: product_list_params where
  "example_filter_params =
     example_list_params\<lparr>pl_categoryIds := Some [1], pl_flavorIds := Some [1, 2],
       pl_sizeIds := Some [2], pl_minPrice := Some 50, pl_maxPrice := Some 150,
       pl_confectionerIds := Some [1, 2], pl_searchTerm := Some ''cenoura''\<rparr>"

text \<open>A request to \<^verbatim>\<open>productList\<close> that leaves every optional field out.\<close>

definition example_request :: ProductListParams where
  "example_request =
     \<lparr>plp_idAccount = 1, plp_page = None, plp_pageSize = None, plp_sortBy = None,
      plp_categoryIds = None, plp_flavorIds = None, plp_sizeIds = None, plp_minPrice = None,
      plp_maxPrice = None, plp_confectionerIds = None, plp_searchTerm = None,
      plp_availableOnly = None\<rparr>"

text \<open>
  A store with thirteen products on sale, to see a page fill: product \<open>i\<close> is rated
  \<open>i\<close>.
\<close>

definition bulk_product :: "int \<Rightarrow> product_row" where
  "bulk_product i =
     \<lparr>prd_idProduct = i, prd_idAccount = 1, prd_idConfectioner = 1, prd_idCategory = 1,
      prd_name = ''Bolo'', prd_description = ''Bolo'', prd_ingredients = None,
      prd_nutritionalInfo = None, prd_basePrice = 100, prd_promotionalPrice = None,
      prd_mainImage = ''bolo.png'', prd_imageGallery = None, prd_averageRating = i,
      prd_totalReviews = 0, prd_preparationTime = ''1 dia'', prd_available = True,
      prd_active = True, prd_deleted = False\<rparr>"

definition bulk_db :: database where
  "bulk_db = example_db\<lparr>tbl_product := map bulk_product [1, 2, 3, 4, 5, 6, 7, 8, 9, 10, 11, 12, 13]\<rparr>"

text \<open>
  The example store with its third product restored: the first product then has a
  product of the same confectioner on sale.
\<close>

definition restored_db :: database where
  "restored_db =
     example_db\<lparr>tbl_product := map (\<lambda>prd. prd\<lparr>prd_deleted := False\<rparr>) (tbl_product example_db)\<rparr>"

text \<open>
  The key the \<^verbatim>\<open>ORDER BY\<close> list of \<^verbatim>\<open>spProductList\<close> ranks a row by before it
  looks at the name.
\<close>

definition product_list_rank :: "string \<Rightarrow> product_list_item \<Rightarrow> int" where
  "product_list_rank sortBy r =
     (if sortBy = ''preco_menor'' then pli_basePrice r
      else if sortBy = ''preco_maior'' then - pli_basePrice r
      else if sortBy = ''melhor_avaliados'' then - pli_averageRating r
      else if sortBy = ''relevancia'' then - pli_averageRating r
      else 0)"

section \<open>Properties of spCartAdd\<close>

lemmas cart_simps = spCartAdd_def spCartAdd_read_def spCartAdd_write_def cart_tran_def
  cart_output_def cart_update_def cart_insert_def cart_rows_def product_rows_def size_rows_def
  cart_unitPrice_def cart_basePrice_def cart_priceModifier_def product_available_def
  flavor_available_def size_available_def select_into_def ISNULL_def sql_plus_def sql_times_def
  cart_wf_def cart_key_def

lemmas example_simps = example_db_def example_products_def example_add_def example_line_def
  example_cart_db_def

lemma select_into_single: "select_into v [x] = x"
  by (simp add: select_into_def)

lemma cart_key_update: "cart_key (cart_update v i n crt) = cart_key crt"
  by (simp add: cart_update_def cart_key_def)

lemma cart_rows_key:
  "cart_rows db t u p f s = filter (\<lambda>crt. cart_key crt = (t, u, p, f, s)) (tbl_cart db)"
  by (simp add: cart_rows_def cart_key_def) 

lemma filter_key_map_update:
  "filter (\<lambda>crt. cart_key crt = k) (map (cart_update v i n) xs)
     = map (cart_update v i n) (filter (\<lambda>crt. cart_key crt = k) xs)"
  by (induction xs) (simp_all add: cart_key_update)

lemma filter_id_map_update:
  "filter (\<lambda>crt. crt_idCart crt = j) (map (cart_update v i n) xs)
     = map (cart_update v i n) (filter (\<lambda>crt. crt_idCart crt = j) xs)"
  by (induction xs) (simp_all add: cart_update_def)

lemma filter_singleton_mem:
  assumes "filter P xs = [x]" shows "x \<in> set xs" and "P x"
proof -
  from assms have "x \<in> set (filter P xs)" by simp
  then show "x \<in> set xs" and "P x" by simp_all
qed

lemma distinct_filter_id:
  assumes "distinct (map g xs)" "x \<in> set xs"
  shows "filter (\<lambda>y. g y = g x) xs = [x]"
  using assms
proof (induction xs)
  case Nil then show ?case by simp
next
  case (Cons a xs)
  show ?case
  proof (cases "a = x")
    case True
    with Cons.prems have "g x \<notin> g ` set xs" by simp
    then have "\<forall>y\<in>set xs. g y \<noteq> g x" by (metis imageI)
    then have "filter (\<lambda>y. g y = g x) xs = []" by (simp add: filter_empty_conv)
    with True show ?thesis by simp
  next
    case False
    with Cons.prems have "x \<in> set xs" "g a \<noteq> g x" by auto
    with Cons show ?thesis by simp
  qed
qed

lemma map_update_only:
  assumes "distinct (map crt_idCart xs)" "crt \<in> set xs"
  shows "map (cart_update v (crt_idCart crt) n) xs
           = map (\<lambda>x. if x = crt then cart_update v (crt_idCart crt) n crt else x) xs"
proof (rule map_cong[OF refl])
  fix x assume "x \<in> set xs"
  with assms have "crt_idCart x = crt_idCart crt \<longleftrightarrow> x = crt"
    by (meson distinct_map inj_onD)
  then show "cart_update v (crt_idCart crt) n x = (if x = crt then cart_update v (crt_idCart crt) n crt else x)"
    by (auto simp: cart_update_def)
qed

lemma spCartAdd_read_ok:
  assumes "1 \<le> r" "r \<le> 10"
    and "product_available db t p" "flavor_available db t p f" "size_available db t p s"
  shows "spCartAdd_read db \<lparr>ca_idAccount = Some t, ca_idUser = Some u, ca_idProduct = Some p,
            ca_idFlavor = Some f, ca_idSize = Some s, ca_quantity = Some r, ca_notes = n\<rparr>
         = Inr \<lparr>v_idAccount = t, v_idUser = u, v_idProduct = p, v_idFlavor = f, v_idSize = s,
                v_quantity = r, v_notes = n, v_unitPrice = cart_unitPrice db t p s,
                v_totalPrice = sql_times (cart_unitPrice db t p s) (Some r),
                v_existing = select_into None
                  (map (\<lambda>crt. Some (crt_idCart crt, crt_quantity crt)) (cart_rows db t u p f s))\<rparr>"
  using assms by (simp add: spCartAdd_read_def Let_def)

text \<open>
  Claim C1. Take a cart table as the data model describes it (\<open>cart_wf\<close>) that holds
  one line \<open>crt\<close> for the key (tenant, user, product, flavor, size), with quantity
  \<open>q\<close>, and a call for that key with
  a quantity \<open>r\<close> between 1 and 10 that passes the three availability checks. If
  \<open>q + r \<le> 10\<close> the call succeeds; afterwards the key still has exactly one line, its
  quantity is \<open>q + r\<close>, its total price is the unit price computed from the catalog by this
  call times \<open>q + r\<close>, its notes are the new notes if some were supplied and the old ones
  otherwise, and every other line of the cart is as it was. If \<open>q + r > 10\<close> the call
  fails with \<^verbatim>\<open>quantityExceedsLimit\<close> and the store is the one before the call.
\<close>

theorem spCartAdd_merge:
  assumes wf: "cart_wf db"
    and line: "cart_rows db t u p f s = [crt]"
    and qty: "1 \<le> r" "r \<le> 10"
    and avail: "product_available db t p" "flavor_available db t p f" "size_available db t p s"
    and a: "a = \<lparr>ca_idAccount = Some t, ca_idUser = Some u, ca_idProduct = Some p,
            ca_idFlavor = Some f, ca_idSize = Some s, ca_quantity = Some r, ca_notes = n\<rparr>"
    and crt': "crt' = crt\<lparr>crt_quantity := crt_quantity crt + r,
                 crt_totalPrice := sql_times (cart_unitPrice db t p s) (Some (crt_quantity crt + r)),
                 crt_notes := (case n of None \<Rightarrow> crt_notes crt | Some new \<Rightarrow> Some new)\<rparr>"
  shows "(crt_quantity crt + r \<le> 10 \<longrightarrow>
            (\<exists>db'. spCartAdd db a =
                 (db', Inr [\<lparr>ci_idCart = crt_idCart crt, ci_quantity = crt_quantity crt + r,
                             ci_unitPrice = crt_unitPrice crt,
                             ci_totalPrice = sql_times (cart_unitPrice db t p s) (Some (crt_quantity crt + r))\<rparr>])
               \<and> cart_rows db' t u p f s = [crt']
               \<and> tbl_cart db' = map (\<lambda>x. if x = crt then crt' else x) (tbl_cart db)))
       \<and> (crt_quantity crt + r > 10 \<longrightarrow>
            spCartAdd db a = (db, Inl (THROW 51000 ''quantityExceedsLimit'' 1)))"
proof -
  let ?v = "\<lparr>v_idAccount = t, v_idUser = u, v_idProduct = p, v_idFlavor = f, v_idSize = s,
                v_quantity = r, v_notes = n, v_unitPrice = cart_unitPrice db t p s,
                v_totalPrice = sql_times (cart_unitPrice db t p s) (Some r),
                v_existing = Some (crt_idCart crt, crt_quantity crt)\<rparr>"
  have read: "spCartAdd_read db a = Inr ?v"
    unfolding a using spCartAdd_read_ok[OF qty avail, of u n] by (simp add: line select_into_def)
  have mem: "crt \<in> set (tbl_cart db)"
    using filter_singleton_mem(1)[OF line[unfolded cart_rows_def]] .
  have dist: "distinct (map crt_idCart (tbl_cart db))"
    using wf by (simp add: cart_wf_def)
  have upd: "cart_update ?v (crt_idCart crt) (crt_quantity crt + r) crt = crt'"
    by (cases n) (simp_all add: cart_update_def crt' ISNULL_def)
  have over: "crt_quantity crt + r > 10 \<Longrightarrow>
      spCartAdd db a = (db, Inl (THROW 51000 ''quantityExceedsLimit'' 1))"
    by (simp add: spCartAdd_def read spCartAdd_write_def cart_tran_def)
  have ok: "\<exists>db'. spCartAdd db a =
                 (db', Inr [\<lparr>ci_idCart = crt_idCart crt, ci_quantity = crt_quantity crt + r,
                             ci_unitPrice = crt_unitPrice crt,
                             ci_totalPrice = sql_times (cart_unitPrice db t p s) (Some (crt_quantity crt + r))\<rparr>])
               \<and> cart_rows db' t u p f s = [crt']
               \<and> tbl_cart db' = map (\<lambda>x. if x = crt then crt' else x) (tbl_cart db)"
    if le: "crt_quantity crt + r \<le> 10"
  proof -
    let ?db' = "db\<lparr>tbl_cart := map (cart_update ?v (crt_idCart crt) (crt_quantity crt + r)) (tbl_cart db)\<rparr>"
    have tran: "cart_tran db ?v = Inr (?db', crt_idCart crt)"
      using le by (simp add: cart_tran_def)
    have ids: "filter (\<lambda>x. crt_idCart x = crt_idCart crt) (tbl_cart db) = [crt]"
      using distinct_filter_id[OF dist mem] .
    have out: "cart_output ?db' (crt_idCart crt) =
         [\<lparr>ci_idCart = crt_idCart crt, ci_quantity = crt_quantity crt + r,
           ci_unitPrice = crt_unitPrice crt,
           ci_totalPrice = sql_times (cart_unitPrice db t p s) (Some (crt_quantity crt + r))\<rparr>]"
      by (simp add: cart_output_def filter_id_map_update ids upd) (simp add: crt')
    have rows: "cart_rows ?db' t u p f s = [crt']"
      using line by (simp add: cart_rows_key filter_key_map_update upd)
    have tbl: "tbl_cart ?db' = map (\<lambda>x. if x = crt then crt' else x) (tbl_cart db)"
      using map_update_only[OF dist mem, of ?v "crt_quantity crt + r"] by (simp add: upd)
    have "spCartAdd db a = (?db', Inr (cart_output ?db' (crt_idCart crt)))"
      by (simp add: spCartAdd_def read spCartAdd_write_def tran)
    with out have sp: "spCartAdd db a =
        (?db', Inr [\<lparr>ci_idCart = crt_idCart crt, ci_quantity = crt_quantity crt + r,
                     ci_unitPrice = crt_unitPrice crt,
                     ci_totalPrice = sql_times (cart_unitPrice db t p s) (Some (crt_quantity crt + r))\<rparr>])"
      by simp
    show ?thesis
      by (rule exI[of _ ?db']) (intro conjI sp rows tbl)
  qed
  from over ok show ?thesis by blast
qed

theorem spCartAdd_merge_witness:
  "spCartAdd example_db (example_add 3 (Some ''sem acucar'')) =
     (example_cart_db 3, Inr [\<lparr>ci_idCart = 1, ci_quantity = 3, ci_unitPrice = Some 150,
                               ci_totalPrice = Some 450\<rparr>])
   \<and> (\<exists>db'. spCartAdd (example_cart_db 3) (example_add 4 None) =
         (db', Inr [\<lparr>ci_idCart = 1, ci_quantity = 7, ci_unitPrice = Some 150,
                     ci_totalPrice = Some 1050\<rparr>])
       \<and> cart_rows db' 1 1 1 1 1 =
           [\<lparr>crt_idCart = 1, crt_idAccount = 1, crt_idUser = 1, crt_idProduct = 1,
             crt_idFlavor = 1, crt_idSize = 1, crt_quantity = 7, crt_unitPrice = Some 150,
             crt_totalPrice = Some 1050, crt_notes = Some ''sem acucar''\<rparr>])
   \<and> spCartAdd (example_cart_db 8) (example_add 5 None) =
        (example_cart_db 8, Inl (THROW 51000 ''quantityExceedsLimit'' 1))"
proof -
  have a: "spCartAdd example_db (example_add 3 (Some ''sem acucar'')) =
     (example_cart_db 3, Inr [\<lparr>ci_idCart = 1, ci_quantity = 3, ci_unitPrice = Some 150,
                               ci_totalPrice = Some 450\<rparr>])"
    by (simp add: cart_simps example_simps)
  have wf: "cart_wf (example_cart_db q)" for q
    by (simp add: cart_wf_def example_simps)
  have line: "cart_rows (example_cart_db q) 1 1 1 1 1 = [example_line q]" for q
    by (simp add: cart_rows_def example_simps)
  have av: "product_available (example_cart_db q) 1 1" "flavor_available (example_cart_db q) 1 1 1"
    "size_available (example_cart_db q) 1 1 1" for q
    by (simp_all add: product_available_def flavor_available_def size_available_def example_simps)
  have up: "cart_unitPrice (example_cart_db q) 1 1 1 = Some 150" for q
    by (simp add: cart_simps example_simps)
  have b: "\<exists>db'. spCartAdd (example_cart_db 3) (example_add 4 None) =
         (db', Inr [\<lparr>ci_idCart = 1, ci_quantity = 7, ci_unitPrice = Some 150,
                     ci_totalPrice = Some 1050\<rparr>])
       \<and> cart_rows db' 1 1 1 1 1 =
           [\<lparr>crt_idCart = 1, crt_idAccount = 1, crt_idUser = 1, crt_idProduct = 1,
             crt_idFlavor = 1, crt_idSize = 1, crt_quantity = 7, crt_unitPrice = Some 150,
             crt_totalPrice = Some 1050, crt_notes = Some ''sem acucar''\<rparr>]"
    using spCartAdd_merge[OF wf[of 3] line[of 3] _ _ av[of 3] refl refl, of 4 None]
    by (simp add: up sql_times_def) (auto simp: example_line_def example_add_def)
  have c: "spCartAdd (example_cart_db 8) (example_add 5 None) =
        (example_cart_db 8, Inl (THROW 51000 ''quantityExceedsLimit'' 1))"
    using spCartAdd_merge[OF wf[of 8] line[of 8] _ _ av[of 8] refl refl, of 5 None]
    by (simp add: example_line_def example_add_def)
  from a b c show ?thesis by blast
qed

lemma spCartAdd_success_read:
  assumes "spCartAdd db a = (db', Inr out)"
  obtains v where "spCartAdd_read db a = Inr v" "spCartAdd_write db v = (db', Inr out)"
  using assms by (auto simp: spCartAdd_def split: sum.splits)

lemma spCartAdd_read_fields:
  assumes "spCartAdd_read db a = Inr v"
  shows "ca_idAccount a = Some (v_idAccount v)" "ca_idUser a = Some (v_idUser v)"
    "ca_idProduct a = Some (v_idProduct v)" "ca_idFlavor a = Some (v_idFlavor v)"
    "ca_idSize a = Some (v_idSize v)" "ca_quantity a = Some (v_quantity v)"
    "v_notes v = ca_notes a"
    "v_unitPrice v = cart_unitPrice db (v_idAccount v) (v_idProduct v) (v_idSize v)"
    "v_totalPrice v = sql_times (v_unitPrice v) (Some (v_quantity v))"
    "v_existing v = select_into None (map (\<lambda>crt. Some (crt_idCart crt, crt_quantity crt))
        (cart_rows db (v_idAccount v) (v_idUser v) (v_idProduct v) (v_idFlavor v) (v_idSize v)))"
    "1 \<le> v_quantity v" "v_quantity v \<le> 10"
    "product_available db (v_idAccount v) (v_idProduct v)"
    "flavor_available db (v_idAccount v) (v_idProduct v) (v_idFlavor v)"
    "size_available db (v_idAccount v) (v_idProduct v) (v_idSize v)"
  using assms
  by (auto simp: spCartAdd_read_def Let_def split: option.splits if_splits)

lemma cart_unitPrice_rows:
  assumes "product_rows db t p = [prd]" "size_rows db t s = [siz]"
  shows "cart_unitPrice db t p s = Some (spec_unit_price prd siz)"
  using assms
  by (simp add: cart_unitPrice_def cart_basePrice_def cart_priceModifier_def select_into_def
      ISNULL_def sql_plus_def spec_unit_price_def split: option.splits)

lemma product_rows_unique:
  assumes cat: "catalog_wf db" and av: "product_available db t p"
  shows "\<exists>prd. product_rows db t p = [prd]"
proof -
  from av obtain prd where prd: "prd \<in> set (tbl_product db)" "prd_idProduct prd = p" "prd_idAccount prd = t"
    by (auto simp: product_available_def list_ex_iff)
  from cat have d: "distinct (map (\<lambda>prd. (prd_idAccount prd, prd_idProduct prd)) (tbl_product db))"
    by (simp add: catalog_wf_def)
  from distinct_filter_id[OF d prd(1)]
  have "filter (\<lambda>y. prd_idProduct y = p \<and> prd_idAccount y = t) (tbl_product db) = [prd]"
    unfolding prod.inject prd(2,3) by (simp add: conj_commute)
  then show ?thesis by (auto simp: product_rows_def)
qed

lemma size_rows_unique:
  assumes cat: "catalog_wf db" and av: "size_available db t p s"
  shows "\<exists>siz. size_rows db t s = [siz]"
proof -
  from av obtain prdSiz where ps: "prdSiz \<in> set (tbl_productSize db)"
      "prdSiz_idAccount prdSiz = t" "prdSiz_idSize prdSiz = s"
    by (auto simp: size_available_def list_ex_iff)
  from cat ps(1) have "list_ex (\<lambda>siz. siz_idAccount siz = prdSiz_idAccount prdSiz
                      \<and> siz_idSize siz = prdSiz_idSize prdSiz) (tbl_size db)"
    by (simp add: catalog_wf_def list_all_iff)
  with ps obtain siz where siz: "siz \<in> set (tbl_size db)" "siz_idAccount siz = t" "siz_idSize siz = s"
    by (auto simp: list_ex_iff)
  from cat have d: "distinct (map (\<lambda>siz. (siz_idAccount siz, siz_idSize siz)) (tbl_size db))"
    by (simp add: catalog_wf_def)
  from distinct_filter_id[OF d siz(1)]
  have "filter (\<lambda>y. siz_idSize y = s \<and> siz_idAccount y = t) (tbl_size db) = [siz]"
    unfolding prod.inject siz(2,3) by (simp add: conj_commute)
  then show ?thesis by (auto simp: size_rows_def)
qed

lemma distinct_filter_key:
  assumes "distinct (map g xs)"
  shows "filter (\<lambda>y. g y = k) xs = [] \<or> (\<exists>x \<in> set xs. g x = k \<and> filter (\<lambda>y. g y = k) xs = [x])"
proof (cases "\<exists>x \<in> set xs. g x = k")
  case True
  then obtain x where x: "x \<in> set xs" "g x = k" by blast
  from distinct_filter_id[OF assms x(1)] x show ?thesis by auto
next
  case False
  then show ?thesis by (simp add: filter_empty_conv)
qed

lemma cart_rows_unique:
  assumes wf: "cart_wf db"
  shows "cart_rows db t u p f s = [] \<or> (\<exists>old \<in> set (tbl_cart db). cart_rows db t u p f s = [old])"
proof -
  from wf have d: "distinct (map cart_key (tbl_cart db))" by (simp add: cart_wf_def)
  from distinct_filter_key[OF d, of "(t, u, p, f, s)"] show ?thesis
    unfolding cart_rows_key by blast
qed

lemma spCartAdd_write_insert:
  assumes wf: "cart_wf db" and none: "v_existing v = None"
  shows "spCartAdd_write db v =
     (db\<lparr>tbl_cart := tbl_cart db @ [cart_insert v (cart_identity db + 1)],
         cart_identity := cart_identity db + 1\<rparr>,
      Inr [\<lparr>ci_idCart = cart_identity db + 1, ci_quantity = v_quantity v,
            ci_unitPrice = v_unitPrice v, ci_totalPrice = v_totalPrice v\<rparr>])"
proof -
  have old: "filter (\<lambda>crt. crt_idCart crt = cart_identity db + 1) (tbl_cart db) = []"
    using wf by (auto simp: cart_wf_def filter_empty_conv list_all_iff)
  show ?thesis
    using none by (simp add: spCartAdd_write_def cart_tran_def Let_def cart_output_def old cart_insert_def)
qed

lemma spCartAdd_write_merge:
  assumes wf: "cart_wf db" and mem: "old \<in> set (tbl_cart db)"
    and ex: "v_existing v = Some (crt_idCart old, crt_quantity old)"
    and le: "crt_quantity old + v_quantity v \<le> 10"
  shows "spCartAdd_write db v =
     (db\<lparr>tbl_cart := map (cart_update v (crt_idCart old) (crt_quantity old + v_quantity v)) (tbl_cart db)\<rparr>,
      Inr [\<lparr>ci_idCart = crt_idCart old, ci_quantity = crt_quantity old + v_quantity v,
            ci_unitPrice = crt_unitPrice old,
            ci_totalPrice = sql_times (v_unitPrice v) (Some (crt_quantity old + v_quantity v))\<rparr>])"
proof -
  have dist: "distinct (map crt_idCart (tbl_cart db))" using wf by (simp add: cart_wf_def)
  have ids: "filter (\<lambda>x. crt_idCart x = crt_idCart old) (tbl_cart db) = [old]"
    using distinct_filter_id[OF dist mem] .
  show ?thesis
    using ex le
    by (simp add: spCartAdd_write_def cart_tran_def Let_def cart_output_def filter_id_map_update ids
        cart_update_def)
qed

lemma spCartAdd_write_over:
  assumes ex: "v_existing v = Some (i, q)" and over: "q + v_quantity v > 10"
  shows "spCartAdd_write db v = (db, Inl (THROW 51000 ''quantityExceedsLimit'' 1))"
  using assms by (simp add: spCartAdd_write_def cart_tran_def Let_def)

text \<open>
  Claim C2. Take a store as the data model describes it (\<open>cart_wf\<close>, \<open>catalog_wf\<close>)
  and a call that succeeds. The tenant and the ids of the call name one product row
  \<open>prd\<close> and one size row \<open>siz\<close>. After the call the key of the call has exactly one
  line in the store; the total price stored in that line is the unit price of the pricing
  rule (the promotional price of \<open>prd\<close> if it has one, else its base price, plus the
  price modifier of \<open>siz\<close>) times the quantity stored in that line, which is the line's
  final quantity; and the row returned is that line. If the key had no line, the line is
  new, holds the requested quantity and that unit price, and stands at the end of the
  cart, which is otherwise as it was. If the key had a line, that line has been replaced
  by itself with the old quantity plus the requested one and the new total price, and
  every other line of the cart is as it was.
\<close>

theorem spCartAdd_pricing:
  assumes wf: "cart_wf db" and cat: "catalog_wf db"
    and ok: "spCartAdd db a = (db', Inr out)"
  shows "\<exists>t u p f s r prd siz line.
      ca_idAccount a = Some t \<and> ca_idUser a = Some u \<and> ca_idProduct a = Some p
      \<and> ca_idFlavor a = Some f \<and> ca_idSize a = Some s \<and> ca_quantity a = Some r
      \<and> product_rows db t p = [prd] \<and> size_rows db t s = [siz]
      \<and> cart_rows db' t u p f s = [line]
      \<and> crt_totalPrice line = Some (spec_unit_price prd siz * crt_quantity line)
      \<and> out = [\<lparr>ci_idCart = crt_idCart line, ci_quantity = crt_quantity line,
                 ci_unitPrice = crt_unitPrice line,
                 ci_totalPrice = Some (spec_unit_price prd siz * crt_quantity line)\<rparr>]
      \<and> (case cart_rows db t u p f s of
            [] \<Rightarrow>
              line = \<lparr>crt_idCart = cart_identity db + 1, crt_idAccount = t, crt_idUser = u,
                      crt_idProduct = p, crt_idFlavor = f, crt_idSize = s, crt_quantity = r,
                      crt_unitPrice = Some (spec_unit_price prd siz),
                      crt_totalPrice = Some (spec_unit_price prd siz * r),
                      crt_notes = ca_notes a\<rparr>
              \<and> tbl_cart db' = tbl_cart db @ [line]
          | old # _ \<Rightarrow>
              line = old\<lparr>crt_quantity := crt_quantity old + r,
                         crt_totalPrice := Some (spec_unit_price prd siz * (crt_quantity old + r)),
                         crt_notes := (case ca_notes a of None \<Rightarrow> crt_notes old | Some n \<Rightarrow> Some n)\<rparr>
              \<and> tbl_cart db' = map (\<lambda>x. if x = old then line else x) (tbl_cart db))"
proof -
  from ok obtain v where v: "spCartAdd_read db a = Inr v" "spCartAdd_write db v = (db', Inr out)"
    by (rule spCartAdd_success_read)
  note fl = spCartAdd_read_fields[OF v(1)]
  define t u p f s r where "t = v_idAccount v" and "u = v_idUser v" and "p = v_idProduct v"
    and "f = v_idFlavor v" and "s = v_idSize v" and "r = v_quantity v"
  note d = t_def u_def p_def f_def s_def r_def
  from product_rows_unique[OF cat fl(13)] obtain prd where prd: "product_rows db t p = [prd]"
    unfolding d by blast
  from size_rows_unique[OF cat fl(15)] obtain siz where siz: "size_rows db t s = [siz]"
    unfolding d by blast
  let ?U = "spec_unit_price prd siz"
  have up: "v_unitPrice v = Some ?U"
    using fl(8) cart_unitPrice_rows[OF prd siz] by (simp add: d)
  have tp: "v_totalPrice v = Some (?U * r)"
    using fl(9) up by (simp add: sql_times_def d)
  have ex: "v_existing v = select_into None (map (\<lambda>crt. Some (crt_idCart crt, crt_quantity crt))
        (cart_rows db t u p f s))"
    using fl(10) by (simp add: d)
  have params: "ca_idAccount a = Some t \<and> ca_idUser a = Some u \<and> ca_idProduct a = Some p
      \<and> ca_idFlavor a = Some f \<and> ca_idSize a = Some s \<and> ca_quantity a = Some r"
    using fl(1-6) by (simp add: d)
  from cart_rows_unique[OF wf, of t u p f s] show ?thesis
  proof
    assume none: "cart_rows db t u p f s = []"
    let ?line = "\<lparr>crt_idCart = cart_identity db + 1, crt_idAccount = t, crt_idUser = u,
                      crt_idProduct = p, crt_idFlavor = f, crt_idSize = s, crt_quantity = r,
                      crt_unitPrice = Some ?U, crt_totalPrice = Some (?U * r),
                      crt_notes = ca_notes a\<rparr>"
    have ins: "cart_insert v (cart_identity db + 1) = ?line"
      by (simp add: cart_insert_def up tp fl(7) d)
    from ex none have e: "v_existing v = None" by (simp add: select_into_def)
    from spCartAdd_write_insert[OF wf e] v(2)
    have db': "db' = db\<lparr>tbl_cart := tbl_cart db @ [?line], cart_identity := cart_identity db + 1\<rparr>"
      and out: "out = [\<lparr>ci_idCart = cart_identity db + 1, ci_quantity = r,
            ci_unitPrice = Some ?U, ci_totalPrice = Some (?U * r)\<rparr>]"
      by (simp_all add: ins up tp d)
    have rows: "cart_rows db' t u p f s = [?line]"
      using none by (simp add: db' cart_rows_def)
    have tbl: "tbl_cart db' = tbl_cart db @ [?line]" by (simp add: db')
    have "ca_idAccount a = Some t \<and> ca_idUser a = Some u \<and> ca_idProduct a = Some p
      \<and> ca_idFlavor a = Some f \<and> ca_idSize a = Some s \<and> ca_quantity a = Some r
      \<and> product_rows db t p = [prd] \<and> size_rows db t s = [siz]
      \<and> cart_rows db' t u p f s = [?line]
      \<and> crt_totalPrice ?line = Some (?U * crt_quantity ?line)
      \<and> out = [\<lparr>ci_idCart = crt_idCart ?line, ci_quantity = crt_quantity ?line,
                 ci_unitPrice = crt_unitPrice ?line,
                 ci_totalPrice = Some (?U * crt_quantity ?line)\<rparr>]
      \<and> (case cart_rows db t u p f s of
            [] \<Rightarrow>
              ?line = \<lparr>crt_idCart = cart_identity db + 1, crt_idAccount = t, crt_idUser = u,
                      crt_idProduct = p, crt_idFlavor = f, crt_idSize = s, crt_quantity = r,
                      crt_unitPrice = Some ?U,
                      crt_totalPrice = Some (?U * r),
                      crt_notes = ca_notes a\<rparr>
              \<and> tbl_cart db' = tbl_cart db @ [?line]
          | old # _ \<Rightarrow>
              ?line = old\<lparr>crt_quantity := crt_quantity old + r,
                         crt_totalPrice := Some (?U * (crt_quantity old + r)),
                         crt_notes := (case ca_notes a of None \<Rightarrow> crt_notes old | Some n \<Rightarrow> Some n)\<rparr>
              \<and> tbl_cart db' = map (\<lambda>x. if x = old then ?line else x) (tbl_cart db))"
      using params prd siz rows out tbl by (simp add: none)
    then show ?thesis by blast
  next
    assume "\<exists>old \<in> set (tbl_cart db). cart_rows db t u p f s = [old]"
    then obtain old where mem: "old \<in> set (tbl_cart db)" and one: "cart_rows db t u p f s = [old]"
      by blast
    let ?n = "crt_quantity old + r"
    let ?line = "old\<lparr>crt_quantity := ?n, crt_totalPrice := Some (?U * ?n),
                      crt_notes := (case ca_notes a of None \<Rightarrow> crt_notes old | Some n \<Rightarrow> Some n)\<rparr>"
    from ex one have e: "v_existing v = Some (crt_idCart old, crt_quantity old)"
      by (simp add: select_into_def)
    have le: "crt_quantity old + v_quantity v \<le> 10"
    proof (rule ccontr)
      assume "\<not> crt_quantity old + v_quantity v \<le> 10"
      then have "crt_quantity old + v_quantity v > 10" by simp
      from spCartAdd_write_over[OF e this, of db] v(2) show False by simp
    qed
    have upd: "cart_update v (crt_idCart old) ?n old = ?line"
      by (cases "ca_notes a") (simp_all add: cart_update_def up sql_times_def ISNULL_def fl(7))
    have dist: "distinct (map crt_idCart (tbl_cart db))" using wf by (simp add: cart_wf_def)
    from spCartAdd_write_merge[OF wf mem e le] v(2)
    have db': "db' = db\<lparr>tbl_cart := map (cart_update v (crt_idCart old) ?n) (tbl_cart db)\<rparr>"
      and out: "out = [\<lparr>ci_idCart = crt_idCart old, ci_quantity = ?n,
            ci_unitPrice = crt_unitPrice old, ci_totalPrice = Some (?U * ?n)\<rparr>]"
      by (simp_all add: up sql_times_def d)
    have rows: "cart_rows db' t u p f s = [?line]"
      using one by (simp add: db' cart_rows_key filter_key_map_update upd)
    have tbl: "tbl_cart db' = map (\<lambda>x. if x = old then ?line else x) (tbl_cart db)"
      using map_update_only[OF dist mem, of v ?n] by (simp add: db' upd)
    have "ca_idAccount a = Some t \<and> ca_idUser a = Some u \<and> ca_idProduct a = Some p
      \<and> ca_idFlavor a = Some f \<and> ca_idSize a = Some s \<and> ca_quantity a = Some r
      \<and> product_rows db t p = [prd] \<and> size_rows db t s = [siz]
      \<and> cart_rows db' t u p f s = [?line]
      \<and> crt_totalPrice ?line = Some (?U * crt_quantity ?line)
      \<and> out = [\<lparr>ci_idCart = crt_idCart ?line, ci_quantity = crt_quantity ?line,
                 ci_unitPrice = crt_unitPrice ?line,
                 ci_totalPrice = Some (?U * crt_quantity ?line)\<rparr>]
      \<and> (case cart_rows db t u p f s of
            [] \<Rightarrow>
              ?line = \<lparr>crt_idCart = cart_identity db + 1, crt_idAccount = t, crt_idUser = u,
                      crt_idProduct = p, crt_idFlavor = f, crt_idSize = s, crt_quantity = r,
                      crt_unitPrice = Some ?U,
                      crt_totalPrice = Some (?U * r),
                      crt_notes = ca_notes a\<rparr>
              \<and> tbl_cart db' = tbl_cart db @ [?line]
          | old # _ \<Rightarrow>
              ?line = old\<lparr>crt_quantity := crt_quantity old + r,
                         crt_totalPrice := Some (?U * (crt_quantity old + r)),
                         crt_notes := (case ca_notes a of None \<Rightarrow> crt_notes old | Some n \<Rightarrow> Some n)\<rparr>
              \<and> tbl_cart db' = map (\<lambda>x. if x = old then ?line else x) (tbl_cart db))"
      using params prd siz rows out tbl by (simp add: one)
    then show ?thesis by blast
  qed
qed

theorem spCartAdd_pricing_witness:
  "cart_wf example_db \<and> catalog_wf example_db
   \<and> (\<exists>prd siz line.
         product_rows example_db 1 2 = [prd] \<and> size_rows example_db 1 2 = [siz]
         \<and> spec_unit_price prd siz = 70
         \<and> tbl_cart (fst (spCartAdd example_db example_add_torta)) = [line]
         \<and> crt_quantity line = 2 \<and> crt_unitPrice line = Some 70
         \<and> crt_totalPrice line = Some (spec_unit_price prd siz * crt_quantity line)
         \<and> snd (spCartAdd example_db example_add_torta) =
               Inr [\<lparr>ci_idCart = 1, ci_quantity = 2, ci_unitPrice = Some 70,
                     ci_totalPrice = Some 140\<rparr>])
   \<and> cart_wf (example_cart_db 3) \<and> catalog_wf (example_cart_db 3)
   \<and> (\<exists>prd siz line.
         product_rows (example_cart_db 3) 1 1 = [prd] \<and> size_rows (example_cart_db 3) 1 1 = [siz]
         \<and> spec_unit_price prd siz = 150
         \<and> tbl_cart (fst (spCartAdd (example_cart_db 3) (example_add 4 None))) = [line]
         \<and> crt_quantity line = 7
         \<and> crt_totalPrice line = Some (spec_unit_price prd siz * crt_quantity line)
         \<and> snd (spCartAdd (example_cart_db 3) (example_add 4 None)) =
               Inr [\<lparr>ci_idCart = 1, ci_quantity = 7, ci_unitPrice = Some 150,
                     ci_totalPrice = Some 1050\<rparr>])"
proof -
  have wf: "cart_wf example_db" "cart_wf (example_cart_db 3)"
    by (simp_all add: cart_wf_def example_simps)
  have cat: "catalog_wf example_db" "catalog_wf (example_cart_db 3)"
    by (simp_all add: catalog_wf_def example_simps)
  obtain db1 out1 where r1: "spCartAdd example_db example_add_torta = (db1, Inr out1)"
    by (simp add: cart_simps example_simps example_add_torta_def)
  obtain db2 out2 where r2: "spCartAdd (example_cart_db 3) (example_add 4 None) = (db2, Inr out2)"
    by (simp add: cart_simps example_simps)
  have p1: "product_rows example_db 1 2 = [example_products ! 1]"
    and s1: "size_rows example_db 1 2 = [tbl_size example_db ! 1]"
    and p2: "product_rows (example_cart_db 3) 1 1 = [example_products ! 0]"
    and s2: "size_rows (example_cart_db 3) 1 1 = [tbl_size example_db ! 0]"
    and c1: "cart_rows example_db 1 1 2 1 2 = []"
    and c2: "cart_rows (example_cart_db 3) 1 1 1 1 1 = [example_line 3]"
    by (simp_all add: product_rows_def size_rows_def cart_rows_def example_simps)
  have u1: "spec_unit_price (example_products ! 1) (tbl_size example_db ! 1) = 70"
    and u2: "spec_unit_price (example_products ! 0) (tbl_size example_db ! 0) = 150"
    by (simp_all add: spec_unit_price_def example_simps)
  have a: "\<exists>prd siz line.
         product_rows example_db 1 2 = [prd] \<and> size_rows example_db 1 2 = [siz]
         \<and> spec_unit_price prd siz = 70
         \<and> tbl_cart (fst (spCartAdd example_db example_add_torta)) = [line]
         \<and> crt_quantity line = 2 \<and> crt_unitPrice line = Some 70
         \<and> crt_totalPrice line = Some (spec_unit_price prd siz * crt_quantity line)
         \<and> snd (spCartAdd example_db example_add_torta) =
               Inr [\<lparr>ci_idCart = 1, ci_quantity = 2, ci_unitPrice = Some 70,
                     ci_totalPrice = Some 140\<rparr>]"
  proof -
    from spCartAdd_pricing[OF wf(1) cat(1) r1] obtain t u p f s r prd siz line where h:
      "ca_idAccount example_add_torta = Some t" "ca_idUser example_add_torta = Some u"
      "ca_idProduct example_add_torta = Some p" "ca_idFlavor example_add_torta = Some f"
      "ca_idSize example_add_torta = Some s" "ca_quantity example_add_torta = Some r"
      "product_rows example_db t p = [prd]" "size_rows example_db t s = [siz]"
      "cart_rows db1 t u p f s = [line]"
      "crt_totalPrice line = Some (spec_unit_price prd siz * crt_quantity line)"
      "out1 = [\<lparr>ci_idCart = crt_idCart line, ci_quantity = crt_quantity line,
                 ci_unitPrice = crt_unitPrice line,
                 ci_totalPrice = Some (spec_unit_price prd siz * crt_quantity line)\<rparr>]"
      "(case cart_rows example_db t u p f s of
            [] \<Rightarrow>
              line = \<lparr>crt_idCart = cart_identity example_db + 1, crt_idAccount = t, crt_idUser = u,
                      crt_idProduct = p, crt_idFlavor = f, crt_idSize = s, crt_quantity = r,
                      crt_unitPrice = Some (spec_unit_price prd siz),
                      crt_totalPrice = Some (spec_unit_price prd siz * r),
                      crt_notes = ca_notes example_add_torta\<rparr>
              \<and> tbl_cart db1 = tbl_cart example_db @ [line]
          | old # _ \<Rightarrow>
              line = old\<lparr>crt_quantity := crt_quantity old + r,
                         crt_totalPrice := Some (spec_unit_price prd siz * (crt_quantity old + r)),
                         crt_notes := (case ca_notes example_add_torta of None \<Rightarrow> crt_notes old | Some n \<Rightarrow> Some n)\<rparr>
              \<and> tbl_cart db1 = map (\<lambda>x. if x = old then line else x) (tbl_cart example_db))"
      by blast
    from h(1-6) have k: "t = 1" "u = 1" "p = 2" "f = 1" "s = 2" "r = 2"
      by (simp_all add: example_add_torta_def)
    from h(7,8) have ps: "prd = example_products ! 1" "siz = tbl_size example_db ! 1"
      unfolding k p1 s1 by simp_all
    have up: "spec_unit_price prd siz = 70" unfolding ps by (rule u1)
    from h(12) have ln: "line = \<lparr>crt_idCart = cart_identity example_db + 1, crt_idAccount = 1, crt_idUser = 1,
                      crt_idProduct = 2, crt_idFlavor = 1, crt_idSize = 2, crt_quantity = 2,
                      crt_unitPrice = Some 70, crt_totalPrice = Some (70 * 2),
                      crt_notes = ca_notes example_add_torta\<rparr>"
      and tb: "tbl_cart db1 = tbl_cart example_db @ [line]"
      unfolding k c1 up by simp_all
    have e: "tbl_cart example_db = []" "cart_identity example_db = 0" by (simp_all add: example_db_def)
    have q: "crt_quantity line = 2" "crt_unitPrice line = Some 70" "crt_idCart line = 1"
      by (simp_all add: ln e)
    have o: "snd (spCartAdd example_db example_add_torta) =
               Inr [\<lparr>ci_idCart = 1, ci_quantity = 2, ci_unitPrice = Some 70,
                     ci_totalPrice = Some 140\<rparr>]"
      by (simp add: r1 h(11) q up)
    have tc: "tbl_cart (fst (spCartAdd example_db example_add_torta)) = [line]"
      by (simp add: r1 tb e)
    from h(7,8)[unfolded k] up tc q(1,2) h(10) o show ?thesis by blast
  qed
  have b: "\<exists>prd siz line.
         product_rows (example_cart_db 3) 1 1 = [prd] \<and> size_rows (example_cart_db 3) 1 1 = [siz]
         \<and> spec_unit_price prd siz = 150
         \<and> tbl_cart (fst (spCartAdd (example_cart_db 3) (example_add 4 None))) = [line]
         \<and> crt_quantity line = 7
         \<and> crt_totalPrice line = Some (spec_unit_price prd siz * crt_quantity line)
         \<and> snd (spCartAdd (example_cart_db 3) (example_add 4 None)) =
               Inr [\<lparr>ci_idCart = 1, ci_quantity = 7, ci_unitPrice = Some 150,
                     ci_totalPrice = Some 1050\<rparr>]"
  proof -
    from spCartAdd_pricing[OF wf(2) cat(2) r2] obtain t u p f s r prd siz line where h:
      "ca_idAccount (example_add 4 None) = Some t" "ca_idUser (example_add 4 None) = Some u"
      "ca_idProduct (example_add 4 None) = Some p" "ca_idFlavor (example_add 4 None) = Some f"
      "ca_idSize (example_add 4 None) = Some s" "ca_quantity (example_add 4 None) = Some r"
      "product_rows (example_cart_db 3) t p = [prd]" "size_rows (example_cart_db 3) t s = [siz]"
      "cart_rows db2 t u p f s = [line]"
      "crt_totalPrice line = Some (spec_unit_price prd siz * crt_quantity line)"
      "out2 = [\<lparr>ci_idCart = crt_idCart line, ci_quantity = crt_quantity line,
                 ci_unitPrice = crt_unitPrice line,
                 ci_totalPrice = Some (spec_unit_price prd siz * crt_quantity line)\<rparr>]"
      "(case cart_rows (example_cart_db 3) t u p f s of
            [] \<Rightarrow>
              line = \<lparr>crt_idCart = cart_identity (example_cart_db 3) + 1, crt_idAccount = t, crt_idUser = u,
                      crt_idProduct = p, crt_idFlavor = f, crt_idSize = s, crt_quantity = r,
                      crt_unitPrice = Some (spec_unit_price prd siz),
                      crt_totalPrice = Some (spec_unit_price prd siz * r),
                      crt_notes = ca_notes (example_add 4 None)\<rparr>
              \<and> tbl_cart db2 = tbl_cart (example_cart_db 3) @ [line]
          | old # _ \<Rightarrow>
              line = old\<lparr>crt_quantity := crt_quantity old + r,
                         crt_totalPrice := Some (spec_unit_price prd siz * (crt_quantity old + r)),
                         crt_notes := (case ca_notes (example_add 4 None) of None \<Rightarrow> crt_notes old | Some n \<Rightarrow> Some n)\<rparr>
              \<and> tbl_cart db2 = map (\<lambda>x. if x = old then line else x) (tbl_cart (example_cart_db 3)))"
      by blast
    from h(1-6) have k: "t = 1" "u = 1" "p = 1" "f = 1" "s = 1" "r = 4"
      by (simp_all add: example_add_def)
    from h(7,8) have ps: "prd = example_products ! 0" "siz = tbl_size example_db ! 0"
      unfolding k p2 s2 by simp_all
    have up: "spec_unit_price prd siz = 150" unfolding ps by (rule u2)
    from h(12) have ln: "line = (example_line 3)\<lparr>crt_quantity := crt_quantity (example_line 3) + 4,
                         crt_totalPrice := Some (150 * (crt_quantity (example_line 3) + 4)),
                         crt_notes := (case ca_notes (example_add 4 None) of
                                         None \<Rightarrow> crt_notes (example_line 3) | Some n \<Rightarrow> Some n)\<rparr>"
      and tb: "tbl_cart db2 = map (\<lambda>x. if x = example_line 3 then line else x) (tbl_cart (example_cart_db 3))"
      unfolding k c2 up by simp_all
    have e: "tbl_cart (example_cart_db 3) = [example_line 3]" by (simp add: example_cart_db_def)
    have q: "crt_quantity line = 7" "crt_unitPrice line = Some 150" "crt_idCart line = 1"
      by (simp_all add: ln example_line_def)
    have o: "snd (spCartAdd (example_cart_db 3) (example_add 4 None)) =
               Inr [\<lparr>ci_idCart = 1, ci_quantity = 7, ci_unitPrice = Some 150,
                     ci_totalPrice = Some 1050\<rparr>]"
      by (simp add: r2 h(11) q up)
    have tc: "tbl_cart (fst (spCartAdd (example_cart_db 3) (example_add 4 None))) = [line]"
      by (simp add: r2 tb e)
    from h(7,8)[unfolded k] up tc q(1) h(10) o show ?thesis by blast
  qed
  from wf cat a b show ?thesis by blast
qed

text \<open>
  A call that fails leaves the store as it was, and no call makes a line exceed ten
  units.
\<close>

lemma spCartAdd_failure_keeps_store:
  "spCartAdd db a = (db', Inl e) \<Longrightarrow> db' = db"
  by (auto simp: spCartAdd_def spCartAdd_write_def split: sum.splits prod.splits)

lemma cart_tran_quantity:
  assumes "list_all (\<lambda>crt. crt_quantity crt \<le> 10) (tbl_cart db)"
    and "v_quantity v \<le> 10"
    and "cart_tran db v = Inr (db', i)"
  shows "list_all (\<lambda>crt. crt_quantity crt \<le> 10) (tbl_cart db')"
  using assms
  by (auto simp: cart_tran_def Let_def cart_update_def cart_insert_def list_all_iff
      split: option.splits if_splits)

lemma spCartAdd_quantity_ceiling:
  assumes "list_all (\<lambda>crt. crt_quantity crt \<le> 10) (tbl_cart db)"
  shows "list_all (\<lambda>crt. crt_quantity crt \<le> 10) (tbl_cart (fst (spCartAdd db a)))"
proof (cases "spCartAdd_read db a")
  case (Inl e)
  with assms show ?thesis by (simp add: spCartAdd_def)
next
  case (Inr v)
  note f = spCartAdd_read_fields[OF Inr]
  show ?thesis
  proof (cases "cart_tran db v")
    case (Inl e)
    with Inr assms show ?thesis by (simp add: spCartAdd_def spCartAdd_write_def)
  next
    case r: (Inr p)
    obtain db' i where p: "p = (db', i)" by (cases p)
    from cart_tran_quantity[OF assms f(12) r[unfolded p]] Inr r p show ?thesis
      by (simp add: spCartAdd_def spCartAdd_write_def)
  qed
qed

text \<open>
  Claim C3 asks that the line a successful call touched stores the unit price computed
  by that call, and a total price equal to its stored unit price times its stored
  quantity. The insert writes \<^verbatim>\<open>[unitPrice]\<close>; the \<^verbatim>\<open>UPDATE\<close> of the merge does
  not. Here the first call creates a line of 3 at the unit price 150, the catalog raises
  the base price by 20, and the second call adds 4: the line then holds quantity 7, the
  old unit price 150 (the call computed 170) and the total price 1190, which is not
  \<open>150 * 7\<close>.
\<close>

theorem spCartAdd_merge_keeps_old_unitPrice:
  "spCartAdd example_db (example_add 3 None) =
     (example_cart_db 3\<lparr>tbl_cart := [(example_line 3)\<lparr>crt_notes := None\<rparr>]\<rparr>,
      Inr [\<lparr>ci_idCart = 1, ci_quantity = 3, ci_unitPrice = Some 150, ci_totalPrice = Some 450\<rparr>])
   \<and> cart_unitPrice (reprice 20 (fst (spCartAdd example_db (example_add 3 None)))) 1 1 1 = Some 170
   \<and> snd (spCartAdd (reprice 20 (fst (spCartAdd example_db (example_add 3 None)))) (example_add 4 None)) =
       Inr [\<lparr>ci_idCart = 1, ci_quantity = 7, ci_unitPrice = Some 150, ci_totalPrice = Some 1190\<rparr>]
   \<and> map (\<lambda>crt. (crt_quantity crt, crt_unitPrice crt, crt_totalPrice crt))
        (tbl_cart (fst (spCartAdd (reprice 20 (fst (spCartAdd example_db (example_add 3 None))))
           (example_add 4 None)))) = [(7, Some 150, Some 1190)]"
  by (simp add: cart_simps example_simps reprice_def)

text \<open>
  Claim C4 asks that two calls made at once for a key that has no line end with one line
  holding the sum of the two quantities. In the schedule of \<open>spCartAdd_interleaved\<close>
  both sessions find no line, and both insert: the key ends with two lines, of
  quantities 3 and 4, and neither call fails.
\<close>

theorem spCartAdd_interleaved_double_insert:
  "(case spCartAdd_interleaved example_db (example_add 3 None) (example_add 4 None) of
      (db', r1, r2) \<Rightarrow> (map crt_quantity (cart_rows db' 1 1 1 1 1), r1, r2)) =
     ([3, 4],
      Inr [\<lparr>ci_idCart = 1, ci_quantity = 3, ci_unitPrice = Some 150, ci_totalPrice = Some 450\<rparr>],
      Inr [\<lparr>ci_idCart = 2, ci_quantity = 4, ci_unitPrice = Some 150, ci_totalPrice = Some 600\<rparr>])"
  by (simp add: spCartAdd_interleaved_def cart_simps example_simps)


section \<open>Properties of ORDER BY\<close>

lemma mset_insert_by: "mset (insert_by le x xs) = add_mset x (mset xs)"
  by (induction xs) simp_all

lemma mset_order_by: "mset (order_by le xs) = mset xs"
  by (induction xs) (simp_all add: order_by_def mset_insert_by)

lemma set_order_by: "set (order_by le xs) = set xs"
  using mset_order_by[of le xs] by (metis set_mset_mset)

lemma length_order_by: "length (order_by le xs) = length xs"
  using mset_order_by[of le xs] by (metis size_mset)

lemma set_insert_by: "set (insert_by le x xs) = insert x (set xs)"
  using mset_insert_by[of le x xs] by (metis set_mset_mset set_mset_add_mset_insert)

lemma sorted_wrt_insert_by:
  assumes "total_preorder le" "sorted_wrt le xs"
  shows "sorted_wrt le (insert_by le x xs)"
  using assms(2)
proof (induction xs)
  case Nil
  then show ?case by simp
next
  case (Cons y ys)
  from assms(1) have tot: "\<And>a b. le a b \<or> le b a" and trans: "\<And>a b c. le a b \<Longrightarrow> le b c \<Longrightarrow> le a c"
    unfolding total_preorder_def by blast+
  show ?case
  proof (cases "le x y")
    case True
    with Cons.prems trans show ?thesis by auto
  next
    case False
    with tot have "le y x" by blast
    with Cons False show ?thesis by (auto simp: set_insert_by)
  qed
qed

lemma sorted_wrt_order_by: "total_preorder le \<Longrightarrow> sorted_wrt le (order_by le xs)"
  by (induction xs) (simp_all add: order_by_def sorted_wrt_insert_by)

lemma distinct_order_by: "distinct (order_by le xs) = distinct xs"
  using mset_order_by[of le xs] by (metis distinct_count_atmost_1 set_mset_mset)

section \<open>Properties of spProductGet\<close>

lemma spProductGet_found_iff:
  "(\<exists>res. spProductGet c db (Some t) (Some pid) = Inr res) \<longleftrightarrow>
     (\<exists>prd \<in> set (tbl_product db). prd_idProduct prd = pid \<and> prd_idAccount prd = t \<and> \<not> prd_deleted prd)"
  by (auto simp: spProductGet_def list_ex_iff)

lemma spProductGet_not_found_iff:
  "spProductGet c db (Some t) (Some pid) = Inl (THROW 51000 ''productNotFound'' 1) \<longleftrightarrow>
     \<not> (\<exists>prd \<in> set (tbl_product db). prd_idProduct prd = pid \<and> prd_idAccount prd = t \<and> \<not> prd_deleted prd)"
  by (auto simp: spProductGet_def list_ex_iff)

lemma productGet_db_error:
  "spProductGet c db (Some t) (Some pid) = Inl e \<Longrightarrow> productGet decode c db t pid = Inl (DbError e)"
  by (simp add: productGet_def)

text \<open>
  Claim C9. A request for product \<open>pid\<close> by tenant \<open>t\<close> fails with the error
  \<^verbatim>\<open>THROW 51000, 'productNotFound', 1\<close> when no product has that id, when the products
  with that id are soft-deleted, and when they belong to other tenants: the stored
  procedure returns the same error value in the three cases, and the service passes it
  on unchanged, so nothing in the failure tells the cases apart. (When the tenant has a
  product with that id that is not deleted, the procedure does not fail.)
\<close>

theorem getProductDetails_not_found:
  "((\<forall>prd \<in> set (tbl_product db). prd_idProduct prd \<noteq> pid) \<longrightarrow>
      spProductGet c db (Some t) (Some pid) = Inl (THROW 51000 ''productNotFound'' 1)
      \<and> productGet decode c db t pid = Inl (DbError (THROW 51000 ''productNotFound'' 1)))
   \<and> ((\<forall>prd \<in> set (tbl_product db). prd_idProduct prd = pid \<longrightarrow> prd_deleted prd) \<longrightarrow>
      spProductGet c db (Some t) (Some pid) = Inl (THROW 51000 ''productNotFound'' 1)
      \<and> productGet decode c db t pid = Inl (DbError (THROW 51000 ''productNotFound'' 1)))
   \<and> ((\<forall>prd \<in> set (tbl_product db). prd_idProduct prd = pid \<longrightarrow> prd_idAccount prd \<noteq> t) \<longrightarrow>
      spProductGet c db (Some t) (Some pid) = Inl (THROW 51000 ''productNotFound'' 1)
      \<and> productGet decode c db t pid = Inl (DbError (THROW 51000 ''productNotFound'' 1)))
   \<and> ((\<exists>prd \<in> set (tbl_product db). prd_idProduct prd = pid \<and> prd_idAccount prd = t
          \<and> \<not> prd_deleted prd) \<longrightarrow>
      (\<exists>res. spProductGet c db (Some t) (Some pid) = Inr res))"
proof -
  have nf: "spProductGet c db (Some t) (Some pid) = Inl (THROW 51000 ''productNotFound'' 1)
            \<and> productGet decode c db t pid = Inl (DbError (THROW 51000 ''productNotFound'' 1))"
    if "\<not> (\<exists>prd \<in> set (tbl_product db). prd_idProduct prd = pid \<and> prd_idAccount prd = t
              \<and> \<not> prd_deleted prd)"
    using that spProductGet_not_found_iff[of c db t pid]
      productGet_db_error[of c db t pid "THROW 51000 ''productNotFound'' 1" decode]
    by blast
  have found: "(\<exists>prd \<in> set (tbl_product db). prd_idProduct prd = pid \<and> prd_idAccount prd = t
              \<and> \<not> prd_deleted prd) \<longrightarrow>
            (\<exists>res. spProductGet c db (Some t) (Some pid) = Inr res)"
    using spProductGet_found_iff[of c db t pid] by blast
  have a: "(\<forall>prd \<in> set (tbl_product db). prd_idProduct prd \<noteq> pid) \<longrightarrow>
      spProductGet c db (Some t) (Some pid) = Inl (THROW 51000 ''productNotFound'' 1)
      \<and> productGet decode c db t pid = Inl (DbError (THROW 51000 ''productNotFound'' 1))"
    using nf by blast
  have b: "(\<forall>prd \<in> set (tbl_product db). prd_idProduct prd = pid \<longrightarrow> prd_deleted prd) \<longrightarrow>
      spProductGet c db (Some t) (Some pid) = Inl (THROW 51000 ''productNotFound'' 1)
      \<and> productGet decode c db t pid = Inl (DbError (THROW 51000 ''productNotFound'' 1))"
    using nf by blast
  have c: "(\<forall>prd \<in> set (tbl_product db). prd_idProduct prd = pid \<longrightarrow> prd_idAccount prd \<noteq> t) \<longrightarrow>
      spProductGet c db (Some t) (Some pid) = Inl (THROW 51000 ''productNotFound'' 1)
      \<and> productGet decode c db t pid = Inl (DbError (THROW 51000 ''productNotFound'' 1))"
    using nf by blast
  show ?thesis
    by (intro conjI a b c found)
qed

theorem getProductDetails_not_found_witness:
  "spProductGet binary_collation example_db (Some 1) (Some 99) = Inl (THROW 51000 ''productNotFound'' 1)
   \<and> spProductGet binary_collation example_db (Some 1) (Some 3) = Inl (THROW 51000 ''productNotFound'' 1)
   \<and> spProductGet binary_collation example_db (Some 1) (Some 4) = Inl (THROW 51000 ''productNotFound'' 1)
   \<and> productGet example_decode binary_collation example_db 1 99 = Inl (DbError (THROW 51000 ''productNotFound'' 1))
   \<and> productGet example_decode binary_collation example_db 1 3 = Inl (DbError (THROW 51000 ''productNotFound'' 1))
   \<and> productGet example_decode binary_collation example_db 1 4 = Inl (DbError (THROW 51000 ''productNotFound'' 1))
   \<and> (\<exists>res. spProductGet binary_collation example_db (Some 1) (Some 1) = Inr res)"
  using getProductDetails_not_found[of example_db 99 binary_collation 1 example_decode]
    getProductDetails_not_found[of example_db 3 binary_collation 1 example_decode]
    getProductDetails_not_found[of example_db 4 binary_collation 1 example_decode]
    getProductDetails_not_found[of example_db 1 binary_collation 1 example_decode]
  by (simp add: example_simps)

section \<open>Properties of spProductList and productList\<close>

lemmas list_simps = spProductList_def from_cte_def FilteredProducts_def product_list_where_def
  product_list_item_of_def product_list_le_def search_matches_def has_available_flavor_def
  has_available_size_def in_ids_def order_by_def ceiling_div_def binary_collation_def
  example_list_params_def

lemmas service_simps = productList_def productList_parameters_def recordset_of_def element0_def
  or_number_def or_string_def number_or_null_def string_or_null_def join_or_null_def
  example_request_def

lemma from_cte_declared: "from_cte [(name, rows)] name = Inr rows"
  by (simp add: from_cte_def)

lemma from_cte_undeclared: "from_cte [] name = Inl (InvalidObjectName name)"
  by (simp add: from_cte_def)

lemma spProductList_run:
  assumes "pl_idAccount a = Some t" "1 \<le> pl_page a"
    and "pageSize = (if pl_pageSize a \<in> {12, 24, 36} then pl_pageSize a else 12)"
    and "(pl_page a - 1) * pageSize \<le> 2147483647"
  shows "spProductList c db a =
     \<lparr>recordsets =
        \<lparr>rs_products =
           Some (take (nat pageSize)
                   (drop (nat ((pl_page a - 1) * pageSize))
                      (order_by (product_list_le c (pl_sortBy a)) (FilteredProducts c db a t)))),
         rs_pagination = None\<rparr>,
      raised = Some (InvalidObjectName ''FilteredProducts'')\<rparr>"
  using assms
  by (auto simp: spProductList_def Let_def from_cte_declared from_cte_undeclared split: if_splits)

lemma spProductList_raises: "\<exists>e. raised (spProductList c db a) = Some e"
  by (simp add: spProductList_def Let_def from_cte_declared from_cte_undeclared
      split: option.splits)

lemma spProductList_no_pagination: "rs_pagination (recordsets (spProductList c db a)) = None"
  by (simp add: spProductList_def Let_def from_cte_declared from_cte_undeclared
      split: option.splits)

lemma productList_throws:
  "\<exists>e. productList c db params = Inl (DbError e)
       \<and> raised (spProductList c db (productList_parameters params)) = Some e"
proof -
  from spProductList_raises[of c db "productList_parameters params"]
  obtain e where "raised (spProductList c db (productList_parameters params)) = Some e" ..
  then show ?thesis by (simp add: productList_def Let_def)
qed

lemma product_list_where_pageSize:
  "product_list_where c db (a\<lparr>pl_pageSize := k\<rparr>) t prd = product_list_where c db a t prd"
  by (simp add: product_list_where_def)

lemma FilteredProducts_pageSize:
  "FilteredProducts c db (a\<lparr>pl_pageSize := k\<rparr>) t = FilteredProducts c db a t"
  unfolding FilteredProducts_def product_list_where_pageSize ..

lemma spProductList_pageSize_fallback:
  assumes "k \<notin> {12, 24, 36}"
  shows "spProductList c db (a\<lparr>pl_pageSize := k\<rparr>) = spProductList c db (a\<lparr>pl_pageSize := 12\<rparr>)"
  using assms
  by (simp add: spProductList_def FilteredProducts_pageSize Let_def from_cte_declared
      from_cte_undeclared split: option.splits)

lemma FilteredProducts_member:
  assumes "row \<in> set (FilteredProducts c db a t)"
  shows "\<exists>prd \<in> set (tbl_product db). \<exists>cnf \<in> set (tbl_confectioner db). \<exists>cat \<in> set (tbl_category db).
           row = product_list_item_of prd cnf cat
           \<and> cnf_idAccount cnf = prd_idAccount prd \<and> cnf_idConfectioner cnf = prd_idConfectioner prd
           \<and> cat_idAccount cat = prd_idAccount prd \<and> cat_idCategory cat = prd_idCategory prd
           \<and> product_list_where c db a t prd \<and> \<not> cnf_deleted cnf \<and> \<not> cat_deleted cat"
  using assms by (auto simp: FilteredProducts_def split: if_splits)

lemma spProductList_products:
  assumes "rs_products (recordsets (spProductList c db a)) = Some rows"
  shows "\<exists>t pageSize. pl_idAccount a = Some t \<and> pageSize \<in> {12, 24, 36}
           \<and> rows = take (nat pageSize)
                   (drop (nat ((pl_page a - 1) * pageSize))
                      (order_by (product_list_le c (pl_sortBy a)) (FilteredProducts c db a t)))"
  using assms
  by (auto simp: spProductList_def Let_def from_cte_declared from_cte_undeclared
      split: option.splits if_splits)

text \<open>
  What the procedure sends before it fails: every row of the page is the row of a product
  of the store, joined with its confectioner and its category, neither of them deleted,
  that meets the \<^verbatim>\<open>WHERE\<close> clause; the rows stand in the order of
  \<open>product_list_le\<close>, by the rank of the requested key and then by name.
\<close>

lemma spProductList_page_rows:
  assumes "rs_products (recordsets (spProductList c db a)) = Some rows"
  shows "\<exists>t. pl_idAccount a = Some t
           \<and> (\<forall>row \<in> set rows.
                 \<exists>prd \<in> set (tbl_product db). \<exists>cnf \<in> set (tbl_confectioner db).
                   \<exists>cat \<in> set (tbl_category db).
                   row = product_list_item_of prd cnf cat
                   \<and> cnf_idAccount cnf = prd_idAccount prd
                   \<and> cnf_idConfectioner cnf = prd_idConfectioner prd
                   \<and> cat_idAccount cat = prd_idAccount prd \<and> cat_idCategory cat = prd_idCategory prd
                   \<and> product_list_where c db a t prd \<and> \<not> cnf_deleted cnf \<and> \<not> cat_deleted cat)"
proof -
  from spProductList_products[OF assms] obtain t pageSize where t: "pl_idAccount a = Some t"
    and rows: "rows = take (nat pageSize)
                   (drop (nat ((pl_page a - 1) * pageSize))
                      (order_by (product_list_le c (pl_sortBy a)) (FilteredProducts c db a t)))"
    by blast
  have sub: "set rows \<subseteq> set (FilteredProducts c db a t)"
    unfolding rows by (metis set_order_by set_take_subset set_drop_subset subset_trans)
  have "\<forall>row \<in> set rows.
                 \<exists>prd \<in> set (tbl_product db). \<exists>cnf \<in> set (tbl_confectioner db).
                   \<exists>cat \<in> set (tbl_category db).
                   row = product_list_item_of prd cnf cat
                   \<and> cnf_idAccount cnf = prd_idAccount prd
                   \<and> cnf_idConfectioner cnf = prd_idConfectioner prd
                   \<and> cat_idAccount cat = prd_idAccount prd \<and> cat_idCategory cat = prd_idCategory prd
                   \<and> product_list_where c db a t prd \<and> \<not> cnf_deleted cnf \<and> \<not> cat_deleted cat"
    using sub FilteredProducts_member[of _ c db a t] by blast
  with t show ?thesis by blast
qed

lemma product_list_le_rank:
  "product_list_le c sortBy r1 r2 \<longleftrightarrow>
     product_list_rank sortBy r1 < product_list_rank sortBy r2
     \<or> (product_list_rank sortBy r1 = product_list_rank sortBy r2
         \<and> coll_le c (pli_name r1) (pli_name r2))"
  by (auto simp: product_list_le_def product_list_rank_def)

lemma total_preorder_product_list_le:
  assumes "total_preorder (coll_le c)"
  shows "total_preorder (product_list_le c sortBy)"
proof -
  from assms have tot: "\<And>a b. coll_le c a b \<or> coll_le c b a"
    and trans: "\<And>a b d. coll_le c a b \<Longrightarrow> coll_le c b d \<Longrightarrow> coll_le c a d"
    unfolding total_preorder_def by blast+
  have total: "product_list_le c sortBy x y \<or> product_list_le c sortBy y x" for x y
    unfolding product_list_le_rank
    using tot[of "pli_name x" "pli_name y"] by linarith
  have transitive: "product_list_le c sortBy x z"
    if "product_list_le c sortBy x y" "product_list_le c sortBy y z" for x y z
  proof -
    from that consider
        "product_list_rank sortBy x < product_list_rank sortBy z"
      | "product_list_rank sortBy x = product_list_rank sortBy z"
        "coll_le c (pli_name x) (pli_name y)" "coll_le c (pli_name y) (pli_name z)"
      unfolding product_list_le_rank by linarith
    then show ?thesis
    proof cases
      case 1
      then show ?thesis unfolding product_list_le_rank by simp
    next
      case 2
      from trans[OF 2(2,3)] 2(1) show ?thesis unfolding product_list_le_rank by simp
    qed
  qed
  show ?thesis
    unfolding total_preorder_def using total transitive by blast
qed

lemma spProductList_sorted:
  assumes "total_preorder (coll_le c)"
    and "rs_products (recordsets (spProductList c db a)) = Some rows"
  shows "sorted_wrt (product_list_le c (pl_sortBy a)) rows"
proof -
  from spProductList_products[OF assms(2)] obtain t pageSize where
    rows: "rows = take (nat pageSize)
                   (drop (nat ((pl_page a - 1) * pageSize))
                      (order_by (product_list_le c (pl_sortBy a)) (FilteredProducts c db a t)))"
    by blast
  show ?thesis
    unfolding rows
    by (intro sorted_wrt_take sorted_wrt_drop sorted_wrt_order_by
        total_preorder_product_list_le assms(1))
qed

lemma example_request_parameters: "productList_parameters example_request = example_list_params"
  by (simp add: service_simps example_list_params_def)

lemma spProductList_filters_example:
  "map_option (map pli_name)
     (rs_products (recordsets (spProductList binary_collation example_db example_filter_params)))
     = Some [''Bolo de cenoura'']"
  by (simp add: list_simps example_simps example_filter_params_def)

text \<open>
  Claim C5 asks that every product the listing returns passes all the supplied filters
  and that the total count it returns is the number of the tenant's products that pass
  them. The procedure sends the page and then fails: its second statement reads
  \<^verbatim>\<open>FROM [FilteredProducts]\<close> outside the statement that declared the expression,
  the engine raises error 208, no total count is sent (whatever the request:
  \<open>spProductList_no_pagination\<close>, \<open>productList_throws\<close>), and \<^verbatim>\<open>productList\<close>
  throws that error. Here the request that leaves every filter out gets, on the example
  store, the page of two products from the procedure and the error from the operation.
  Two filters, besides, do not select what was asked for. A maximum price of 0 reaches
  the procedure as NULL (\<^verbatim>\<open>params.maxPrice || null\<close>), and the page holds the
  products priced 80 and 100. The search term is used as a \<^verbatim>\<open>LIKE\<close> pattern, and the
  term \<^verbatim>\<open>_\<close> finds both products, neither of which has an underscore in its name,
  its description or its ingredients.
\<close>

theorem productList_no_totalCount:
  "productList binary_collation example_db example_request
     = Inl (DbError (InvalidObjectName ''FilteredProducts''))
   \<and> map_option (map pli_name)
         (rs_products (recordsets (spProductList binary_collation example_db
            (productList_parameters example_request))))
       = Some [''Torta de limao'', ''Bolo de cenoura'']
   \<and> rs_pagination (recordsets (spProductList binary_collation example_db
         (productList_parameters example_request))) = None
   \<and> raised (spProductList binary_collation example_db (productList_parameters example_request))
       = Some (InvalidObjectName ''FilteredProducts'')
   \<and> pl_maxPrice (productList_parameters (example_request\<lparr>plp_maxPrice := Some 0\<rparr>)) = None
   \<and> map_option (map (\<lambda>row. (pli_name row, pli_basePrice row)))
         (rs_products (recordsets (spProductList binary_collation example_db
            (productList_parameters (example_request\<lparr>plp_maxPrice := Some 0\<rparr>)))))
       = Some [(''Torta de limao'', 80), (''Bolo de cenoura'', 100)]
   \<and> map_option (map pli_name)
         (rs_products (recordsets (spProductList binary_collation example_db
            (productList_parameters (example_request\<lparr>plp_searchTerm := Some ''_''\<rparr>)))))
       = Some [''Torta de limao'', ''Bolo de cenoura'']
   \<and> list_all (\<lambda>prd. CHR ''_'' \<notin> set (prd_name prd) \<and> CHR ''_'' \<notin> set (prd_description prd)
                  \<and> (case prd_ingredients prd of None \<Rightarrow> True | Some i \<Rightarrow> CHR ''_'' \<notin> set i))
        (tbl_product example_db)"
  by (simp add: list_simps service_simps example_simps)

text \<open>
  Claim C7 asks that a request whose page size is none of 12, 24 and 36 does not fail
  and behaves as a request for 12. The procedure does fall back to 12 (its execution
  with such a page size is its execution with 12: \<open>spProductList_pageSize_fallback\<close>),
  and then fails on its second statement as every execution does, so the operation
  fails. Here, on the store with thirteen products, the request for a page of 50 makes
  the procedure send the first 12 rows and raise error 208, exactly as the request for a
  page of 12 does, and \<^verbatim>\<open>productList\<close> throws that error.
\<close>

theorem productList_pageSize_fallback_fails:
  "productList binary_collation bulk_db (example_request\<lparr>plp_pageSize := Some 50\<rparr>)
     = Inl (DbError (InvalidObjectName ''FilteredProducts''))
   \<and> map_option (map pli_idProduct)
         (rs_products (recordsets (spProductList binary_collation bulk_db
            (productList_parameters (example_request\<lparr>plp_pageSize := Some 50\<rparr>)))))
       = Some [13, 12, 11, 10, 9, 8, 7, 6, 5, 4, 3, 2]
   \<and> rs_pagination (recordsets (spProductList binary_collation bulk_db
         (productList_parameters (example_request\<lparr>plp_pageSize := Some 50\<rparr>)))) = None
   \<and> raised (spProductList binary_collation bulk_db
         (productList_parameters (example_request\<lparr>plp_pageSize := Some 50\<rparr>)))
       = Some (InvalidObjectName ''FilteredProducts'')
   \<and> spProductList binary_collation bulk_db
         (productList_parameters (example_request\<lparr>plp_pageSize := Some 50\<rparr>))
       = spProductList binary_collation bulk_db
           (productList_parameters (example_request\<lparr>plp_pageSize := Some 12\<rparr>))"
proof -
  let ?a = "productList_parameters (example_request\<lparr>plp_pageSize := Some 50\<rparr>)"
  let ?page = "take (nat 12) (drop (nat ((pl_page ?a - 1) * 12))
                 (order_by (product_list_le binary_collation (pl_sortBy ?a))
                    (FilteredProducts binary_collation bulk_db ?a 1)))"
  have a: "?a = example_list_params\<lparr>pl_pageSize := 50\<rparr>"
    by (simp add: service_simps example_list_params_def)
  have a12: "productList_parameters (example_request\<lparr>plp_pageSize := Some 12\<rparr>)
               = example_list_params\<lparr>pl_pageSize := 12\<rparr>"
    by (simp add: service_simps example_list_params_def)
  have run: "spProductList binary_collation bulk_db ?a =
     \<lparr>recordsets = \<lparr>rs_products = Some ?page, rs_pagination = None\<rparr>,
      raised = Some (InvalidObjectName ''FilteredProducts'')\<rparr>"
    by (rule spProductList_run) (simp_all add: a example_list_params_def)
  have page: "map pli_idProduct ?page = [13, 12, 11, 10, 9, 8, 7, 6, 5, 4, 3, 2]"
    by (simp add: service_simps, simp add: list_simps example_simps bulk_db_def bulk_product_def)
  have thrown: "productList binary_collation bulk_db (example_request\<lparr>plp_pageSize := Some 50\<rparr>)
     = Inl (DbError (InvalidObjectName ''FilteredProducts''))"
    by (simp add: productList_def Let_def run)
  have same: "spProductList binary_collation bulk_db ?a
       = spProductList binary_collation bulk_db
           (productList_parameters (example_request\<lparr>plp_pageSize := Some 12\<rparr>))"
    unfolding a a12 by (rule spProductList_pageSize_fallback) simp
  have rows: "map_option (map pli_idProduct)
                (rs_products (recordsets (spProductList binary_collation bulk_db ?a)))
       = Some [13, 12, 11, 10, 9, 8, 7, 6, 5, 4, 3, 2]"
    unfolding run
    by (simp only: execution.select_convs product_list_recordsets.select_convs option.map page)
  have sets: "rs_pagination (recordsets (spProductList binary_collation bulk_db ?a)) = None"
    "raised (spProductList binary_collation bulk_db ?a) = Some (InvalidObjectName ''FilteredProducts'')"
    unfolding run by simp_all
  show ?thesis
    by (intro conjI thrown rows sets same)
qed

text \<open>
  Claim C8 asks that the rows come ordered by the requested criterion, best sellers and
  newest included, with ties broken by name. The \<^verbatim>\<open>ORDER BY\<close> list has a
  \<^verbatim>\<open>CASE\<close> for \<^verbatim>\<open>preco_menor\<close>, \<^verbatim>\<open>preco_maior\<close>, \<^verbatim>\<open>melhor_avaliados\<close> and
  \<^verbatim>\<open>relevancia\<close> only. With \<^verbatim>\<open>mais_vendidos\<close> and \<^verbatim>\<open>mais_recentes\<close>, which the
  controller accepts, the rows of the page come in the order of their names alone, as
  they do with a key that means nothing: here the product rated 45 comes before the one
  rated 50 under all three, while \<^verbatim>\<open>relevancia\<close> puts the better rated one first.
\<close>

theorem spProductList_unranked_sort_keys:
  "map (\<lambda>sortBy.
      case rs_products (recordsets
             (spProductList binary_collation example_db (example_list_params\<lparr>pl_sortBy := sortBy\<rparr>))) of
        None \<Rightarrow> []
      | Some rows \<Rightarrow> map pli_name rows)
     [''relevancia'', ''mais_vendidos'', ''mais_recentes'', ''qualquer'']
   = [[''Torta de limao'', ''Bolo de cenoura''],
      [''Bolo de cenoura'', ''Torta de limao''],
      [''Bolo de cenoura'', ''Torta de limao''],
      [''Bolo de cenoura'', ''Torta de limao'']]"
  by (simp add: list_simps example_simps)

section \<open>Properties of productGet\<close>

text \<open>
  What \<^verbatim>\<open>productGet\<close> does: it passes the procedure's error on, and throws a
  \<^verbatim>\<open>TypeError\<close> whenever the procedure answers, because
  \<^verbatim>\<open>result.product.recordset\<close> is \<^verbatim>\<open>undefined\<close>. It never returns.
\<close>

lemma productGet_outcome:
  "productGet decode c db t pid =
     (case spProductGet c db (Some t) (Some pid) of
        Inl e \<Rightarrow> Inl (DbError e)
      | Inr result \<Rightarrow> Inl TypeError)"
  by (simp add: productGet_def recordset_of_def element0_def split: sum.splits)

lemma productGet_never_returns: "productGet decode c db t pid \<noteq> Inr resp"
  by (simp add: productGet_outcome split: sum.splits)

lemma spProductGet_success:
  assumes "spProductGet c db (Some t) (Some pid) = Inr result"
  shows "pg_product result = product_details_rows db t pid"
    "pg_flavors result = order_by (\<lambda>x y. coll_le c (fo_name x) (fo_name y)) (product_flavors db t pid)"
    "pg_sizes result = order_by (\<lambda>x y. so_priceModifier x \<le> so_priceModifier y) (product_sizes db t pid)"
    "pg_reviews result = order_by (\<lambda>x y. ri_dateCreated y \<le> ri_dateCreated x) (product_reviews db t pid)"
  using assms by (auto simp: spProductGet_def split: if_splits)

lemma concat_map_singleton_if:
  "concat (map (\<lambda>x. if P x then [f x] else []) xs) = map f (filter P xs)"
  by (induction xs) simp_all

lemma product_reviews_filter:
  "product_reviews db t pid =
     map (\<lambda>rvw. \<lparr>ri_idReview = rev_idReview rvw, ri_customerName = rev_customerName rvw,
                  ri_rating = rev_rating rvw, ri_comment = rev_comment rvw,
                  ri_dateCreated = rev_dateCreated rvw\<rparr>)
       (filter (\<lambda>rvw. rev_idAccount rvw = t \<and> rev_idProduct rvw = pid \<and> \<not> rev_deleted rvw)
          (tbl_review db))"
  by (simp add: product_reviews_def concat_map_singleton_if)

lemma product_flavors_member:
  assumes "prdFlv \<in> set (tbl_productFlavor db)" "flv \<in> set (tbl_flavor db)"
    "prdFlv_idAccount prdFlv = t" "prdFlv_idProduct prdFlv = pid"
    "flv_idAccount flv = t" "flv_idFlavor flv = prdFlv_idFlavor prdFlv" "\<not> flv_deleted flv"
  shows "\<lparr>fo_idFlavor = flv_idFlavor flv, fo_name = flv_name flv,
          fo_available = prdFlv_available prdFlv\<rparr> \<in> set (product_flavors db t pid)"
  using assms by (force simp: product_flavors_def)

lemma total_preorder_key:
  "total_preorder le \<Longrightarrow> total_preorder (\<lambda>x y. le (f x) (f y))"
  unfolding total_preorder_def by blast

lemma total_preorder_int_le: "total_preorder (\<lambda>x y. f x \<le> (f y :: int))"
  unfolding total_preorder_def by auto

lemma total_preorder_int_ge: "total_preorder (\<lambda>x y. f y \<le> (f x :: int))"
  unfolding total_preorder_def by auto

lemma spProductGet_option_rows:
  assumes ok: "spProductGet c db (Some t) (Some pid) = Inr result"
    and coll: "total_preorder (coll_le c)"
  shows "mset (pg_flavors result) = mset (product_flavors db t pid)"
    and "\<forall>prdFlv \<in> set (tbl_productFlavor db). \<forall>flv \<in> set (tbl_flavor db).
             prdFlv_idAccount prdFlv = t \<and> prdFlv_idProduct prdFlv = pid
             \<and> flv_idAccount flv = t \<and> flv_idFlavor flv = prdFlv_idFlavor prdFlv
             \<and> \<not> flv_deleted flv \<longrightarrow>
               \<lparr>fo_idFlavor = flv_idFlavor flv, fo_name = flv_name flv,
                fo_available = prdFlv_available prdFlv\<rparr> \<in> set (pg_flavors result)"
    and "sorted_wrt (\<lambda>x y. coll_le c (fo_name x) (fo_name y)) (pg_flavors result)"
    and "mset (pg_sizes result) = mset (product_sizes db t pid)"
    and "sorted_wrt (\<lambda>x y. so_priceModifier x \<le> so_priceModifier y) (pg_sizes result)"
    and "mset (pg_reviews result) =
           mset (map (\<lambda>rvw. \<lparr>ri_idReview = rev_idReview rvw, ri_customerName = rev_customerName rvw,
                              ri_rating = rev_rating rvw, ri_comment = rev_comment rvw,
                              ri_dateCreated = rev_dateCreated rvw\<rparr>)
                  (filter (\<lambda>rvw. rev_idAccount rvw = t \<and> rev_idProduct rvw = pid \<and> \<not> rev_deleted rvw)
                     (tbl_review db)))"
    and "sorted_wrt (\<lambda>x y. ri_dateCreated y \<le> ri_dateCreated x) (pg_reviews result)"
proof -
  note g = spProductGet_success[OF ok]
  show "mset (pg_flavors result) = mset (product_flavors db t pid)"
    unfolding g(2) by (rule mset_order_by)
  show "\<forall>prdFlv \<in> set (tbl_productFlavor db). \<forall>flv \<in> set (tbl_flavor db).
             prdFlv_idAccount prdFlv = t \<and> prdFlv_idProduct prdFlv = pid
             \<and> flv_idAccount flv = t \<and> flv_idFlavor flv = prdFlv_idFlavor prdFlv
             \<and> \<not> flv_deleted flv \<longrightarrow>
               \<lparr>fo_idFlavor = flv_idFlavor flv, fo_name = flv_name flv,
                fo_available = prdFlv_available prdFlv\<rparr> \<in> set (pg_flavors result)"
    unfolding g(2) set_order_by using product_flavors_member[of _ db _ t pid] by blast
  show "sorted_wrt (\<lambda>x y. coll_le c (fo_name x) (fo_name y)) (pg_flavors result)"
    unfolding g(2) by (rule sorted_wrt_order_by[OF total_preorder_key[OF coll]])
  show "mset (pg_sizes result) = mset (product_sizes db t pid)"
    unfolding g(3) by (rule mset_order_by)
  show "sorted_wrt (\<lambda>x y. so_priceModifier x \<le> so_priceModifier y) (pg_sizes result)"
    unfolding g(3) by (rule sorted_wrt_order_by[OF total_preorder_int_le])
  show "mset (pg_reviews result) =
           mset (map (\<lambda>rvw. \<lparr>ri_idReview = rev_idReview rvw, ri_customerName = rev_customerName rvw,
                              ri_rating = rev_rating rvw, ri_comment = rev_comment rvw,
                              ri_dateCreated = rev_dateCreated rvw\<rparr>)
                  (filter (\<lambda>rvw. rev_idAccount rvw = t \<and> rev_idProduct rvw = pid \<and> \<not> rev_deleted rvw)
                     (tbl_review db)))"
    unfolding g(4) mset_order_by product_reviews_filter ..
  show "sorted_wrt (\<lambda>x y. ri_dateCreated y \<le> ri_dateCreated x) (pg_reviews result)"
    unfolding g(4) by (rule sorted_wrt_order_by[OF total_preorder_int_ge])
qed

lemma string_le_total: "string_le x y \<or> string_le y x"
proof (induction x y rule: string_le.induct)
  case (3 x xs y ys)
  have "(of_char x :: nat) < of_char y \<or> of_char y < (of_char x :: nat) \<or> x = y"
    by (metis linorder_neqE_nat of_char_eq_iff)
  with 3 show ?case by auto
qed simp_all

lemma string_le_trans: "string_le x y \<Longrightarrow> string_le y z \<Longrightarrow> string_le x z"
proof (induction x y arbitrary: z rule: string_le.induct)
  case (1 ys)
  then show ?case by simp
next
  case (2 x xs)
  then show ?case by simp
next
  case (3 x xs y ys)
  from "3.prems"(2) obtain c zs where z: "z = c # zs" by (cases z) auto
  from "3.prems" z "3.IH" show ?case by (auto intro: less_trans)
qed

lemma total_preorder_string_le: "total_preorder string_le"
  unfolding total_preorder_def using string_le_total string_le_trans by blast

lemmas get_simps = productGet_def spProductGet_def product_details_rows_def
  product_details_row_of_def product_flavors_def product_sizes_def product_reviews_def
  product_details_literal_def recordset_of_def element0_def
  JSON_parse_def truthy_def example_decode_def order_by_def binary_collation_def

text \<open>
  Claim C10 describes what a successful call of the operation returns. No call of
  \<^verbatim>\<open>productGet\<close> succeeds (\<open>productGet_outcome\<close>). Here the procedure answers the
  request for the first product of the example store with its four result sets (the
  product; its flavors by name, the withdrawn one included; its sizes by price modifier;
  its two reviews that are not deleted, newest first) and the function throws a
  \<^verbatim>\<open>TypeError\<close>. The object literal that follows the failing line would, besides,
  decode the ingredients with no fallback: handed the row of the second product, whose
  ingredients are NULL, it gives \<^verbatim>\<open>null\<close> for the ingredients, the empty list for
  the gallery, and \<^verbatim>\<open>undefined\<close> for the flavors.
\<close>

theorem productGet_throws_TypeError:
  "productGet example_decode binary_collation example_db 1 1 = Inl TypeError
   \<and> (case spProductGet binary_collation example_db (Some 1) (Some 1) of
        Inl e \<Rightarrow> None
      | Inr result \<Rightarrow>
          Some (map pdr_name (pg_product result),
                map (\<lambda>x. (fo_name x, fo_available x)) (pg_flavors result),
                map so_priceModifier (pg_sizes result),
                map ri_idReview (pg_reviews result)))
       = Some ([''Bolo de cenoura''], [(''Baunilha'', False), (''Chocolate'', True)], [0, 50], [2, 1])
   \<and> (case spProductGet binary_collation example_db (Some 1) (Some 2) of
        Inl e \<Rightarrow> None
      | Inr result \<Rightarrow>
          (case product_details_literal example_decode (Some (hd (pg_product result))) result of
             Inl e \<Rightarrow> None
           | Inr resp \<Rightarrow>
               Some (pdr_ingredients (pd_product resp), pd_ingredients resp, pd_imageGallery resp,
                     pd_flavors resp)))
       = Some (None, JNull, JArray [], None)"
  by (simp add: get_simps example_simps)

section \<open>Properties of spProductRelated and productRelated\<close>

text \<open>
  What the procedure sends: at most one result set, the first, which holds at most
  \<^verbatim>\<open>@limit\<close> rows, never the reference product, only products of the reference's
  confectioner or category, in the order of tier, rating and review count, and no
  product twice when product ids and confectioner keys identify their rows. When the
  first result set is shorter than the limit the procedure then fails. What
  \<^verbatim>\<open>productRelated\<close> returns is never a list of rows.
\<close>

lemmas related_simps = productRelated_def spProductRelated_def from_cte_def reference_product_def
  RelatedProducts_def PopularProducts_def related_candidate_def related_row_of_def
  related_le_def popular_le_def eligible_products_def select_into_def order_by_def
  recordset_of_def

lemma RelatedProducts_member:
  assumes "x \<in> set (RelatedProducts db t pid cat cnf')"
  shows "\<exists>prd \<in> set (tbl_product db). \<exists>cnf \<in> set (tbl_confectioner db).
           snd x = related_row_of prd cnf \<and> related_candidate t pid prd cnf
           \<and> (prd_idConfectioner prd = cnf' \<or> prd_idCategory prd = cat)"
proof -
  from assms obtain prd cnf where
    "prd \<in> set (tbl_product db)" "cnf \<in> set (tbl_confectioner db)"
    "snd x = related_row_of prd cnf" "related_candidate t pid prd cnf"
    "prd_idConfectioner prd = cnf' \<or> prd_idCategory prd = cat"
    unfolding RelatedProducts_def by (auto split: if_splits)
  then show ?thesis by blast
qed

lemma spProductRelated_run:
  assumes "reference_product db t pid = Some (cat, cnf')" "0 \<le> limit"
    and "first_set = take (nat limit) (map snd (order_by related_le (RelatedProducts db t pid cat cnf')))"
  shows "spProductRelated db (Some t) (Some pid) limit =
     \<lparr>recordsets = [first_set],
      raised = (if int (length first_set) < limit
                then Some (InvalidObjectName ''RelatedProducts'') else None)\<rparr>"
  using assms by (simp add: spProductRelated_def from_cte_def Let_def)

lemma spProductRelated_first_set:
  assumes "recordsets (spProductRelated db (Some t) (Some pid) limit) = first_set # rest"
  shows "rest = [] \<and> 0 \<le> limit
         \<and> (\<exists>cat cnf'. reference_product db t pid = Some (cat, cnf')
           \<and> first_set = take (nat limit) (map snd (order_by related_le (RelatedProducts db t pid cat cnf'))))"
  using assms
  by (auto simp: spProductRelated_def from_cte_def Let_def split: option.splits if_splits)

lemma spProductRelated_no_second_set:
  "length (recordsets (spProductRelated db a p limit)) \<le> 1"
  by (simp add: spProductRelated_def from_cte_def Let_def split: option.splits)

lemma productRelated_never_rows: "productRelated db t pid limit \<noteq> Inr (Some rows)"
  by (simp add: productRelated_def recordset_of_def Let_def split: option.splits list.splits)

lemma total_preorder_related_le: "total_preorder related_le"
  unfolding total_preorder_def related_le_def popular_le_def
  by (auto split: if_splits)

lemma spProductRelated_rows:
  assumes "recordsets (spProductRelated db (Some t) (Some pid) limit) = rows # rest"
  shows "int (length rows) \<le> limit"
    and "\<forall>r \<in> set rows. rr_idProduct r \<noteq> pid"
    and "\<exists>cat cnf'. reference_product db t pid = Some (cat, cnf')
           \<and> (\<forall>r \<in> set rows. \<exists>prd \<in> set (tbl_product db). \<exists>cnf \<in> set (tbl_confectioner db).
                 r = related_row_of prd cnf \<and> related_candidate t pid prd cnf
                 \<and> (prd_idConfectioner prd = cnf' \<or> prd_idCategory prd = cat))"
    and "\<exists>ranked. rows = map snd ranked \<and> sorted_wrt related_le ranked"
proof -
  from spProductRelated_first_set[OF assms] obtain cat cnf' where
    lim: "0 \<le> limit"
    and ref: "reference_product db t pid = Some (cat, cnf')"
    and rows: "rows = take (nat limit) (map snd (order_by related_le (RelatedProducts db t pid cat cnf')))"
    by blast
  from lim show "int (length rows) \<le> limit" unfolding rows by simp
  have mem: "\<exists>x \<in> set (RelatedProducts db t pid cat cnf'). r = snd x" if "r \<in> set rows" for r
  proof -
    from that have "r \<in> set (map snd (order_by related_le (RelatedProducts db t pid cat cnf')))"
      unfolding rows by (rule in_set_takeD)
    then show ?thesis by (auto simp: set_order_by)
  qed
  have each: "\<exists>prd \<in> set (tbl_product db). \<exists>cnf \<in> set (tbl_confectioner db).
                 r = related_row_of prd cnf \<and> related_candidate t pid prd cnf
                 \<and> (prd_idConfectioner prd = cnf' \<or> prd_idCategory prd = cat)"
    if "r \<in> set rows" for r
    using mem[OF that] RelatedProducts_member[of _ db t pid cat cnf'] by metis
  from each show "\<forall>r \<in> set rows. rr_idProduct r \<noteq> pid"
    by (fastforce simp: related_row_of_def related_candidate_def)
  from ref each show "\<exists>cat cnf'. reference_product db t pid = Some (cat, cnf')
           \<and> (\<forall>r \<in> set rows. \<exists>prd \<in> set (tbl_product db). \<exists>cnf \<in> set (tbl_confectioner db).
                 r = related_row_of prd cnf \<and> related_candidate t pid prd cnf
                 \<and> (prd_idConfectioner prd = cnf' \<or> prd_idCategory prd = cat))"
    by blast
  have "rows = map snd (take (nat limit) (order_by related_le (RelatedProducts db t pid cat cnf')))"
    unfolding rows by (simp add: take_map)
  moreover have "sorted_wrt related_le (take (nat limit) (order_by related_le (RelatedProducts db t pid cat cnf')))"
    by (intro sorted_wrt_take sorted_wrt_order_by total_preorder_related_le)
  ultimately show "\<exists>ranked. rows = map snd ranked \<and> sorted_wrt related_le ranked" by blast
qed

lemma distinct_concat_const:
  assumes "\<And>x. length (g x) \<le> 1" "distinct (map f xs)"
  shows "distinct (concat (map (\<lambda>x. map (\<lambda>_. f x) (g x)) xs))"
  using assms(2)
proof (induction xs)
  case Nil
  then show ?case by simp
next
  case (Cons a xs)
  have one: "distinct (map (\<lambda>_. f a) (g a))"
  proof (cases "g a")
    case Nil
    then show ?thesis by simp
  next
    case (Cons y ys)
    with assms(1)[of a] have "ys = []" by simp
    with Cons show ?thesis by simp
  qed
  from Cons.prems have "f a \<notin> f ` set xs" by simp
  then have "set (map (\<lambda>_. f a) (g a)) \<inter> set (concat (map (\<lambda>x. map (\<lambda>_. f x) (g x)) xs)) = {}"
    by auto
  with one Cons show ?case by simp
qed

lemma length_filter_key_le1:
  assumes "distinct (map g xs)"
  shows "length (filter (\<lambda>y. g y = k \<and> P y) xs) \<le> 1"
proof -
  have "length (filter (\<lambda>y. g y = k \<and> P y) xs) \<le> length (filter (\<lambda>y. g y = k) xs)"
    by (induction xs) auto
  also have "\<dots> \<le> 1"
    using distinct_filter_key[OF assms, of k] by auto
  finally show ?thesis .
qed

lemma RelatedProducts_ids:
  "map (\<lambda>x. rr_idProduct (snd x)) (RelatedProducts db t pid cat cnf') =
     concat (map (\<lambda>prd. map (\<lambda>_. prd_idProduct prd)
        (filter (\<lambda>cnf. (cnf_idAccount cnf, cnf_idConfectioner cnf)
                          = (prd_idAccount prd, prd_idConfectioner prd)
                   \<and> (related_candidate t pid prd cnf
                      \<and> (prd_idConfectioner prd = cnf' \<or> prd_idCategory prd = cat)))
           (tbl_confectioner db)))
       (tbl_product db))"
proof -
  have inner: "concat (map (\<lambda>cnf. map (\<lambda>x. rr_idProduct (snd x))
          (if J cnf then if W cnf then [(p, related_row_of prd cnf)] else [] else [])) ys)
      = map (\<lambda>_. prd_idProduct prd) (filter (\<lambda>cnf. J cnf \<and> W cnf) ys)"
    for J W p prd and ys :: "confectioner_row list"
    by (induction ys) (simp_all add: related_row_of_def)
  show ?thesis
    unfolding RelatedProducts_def map_concat map_map comp_def inner prod.inject ..
qed

lemma RelatedProducts_distinct:
  assumes "distinct (map prd_idProduct (tbl_product db))"
    and "distinct (map (\<lambda>cnf. (cnf_idAccount cnf, cnf_idConfectioner cnf)) (tbl_confectioner db))"
  shows "distinct (map (\<lambda>x. rr_idProduct (snd x)) (RelatedProducts db t pid cat cnf'))"
  unfolding RelatedProducts_ids
  by (rule distinct_concat_const[OF length_filter_key_le1[OF assms(2)] assms(1)])

lemma spProductRelated_distinct:
  assumes "distinct (map prd_idProduct (tbl_product db))"
    and "distinct (map (\<lambda>cnf. (cnf_idAccount cnf, cnf_idConfectioner cnf)) (tbl_confectioner db))"
    and "recordsets (spProductRelated db (Some t) (Some pid) limit) = rows # rest"
  shows "distinct (map rr_idProduct rows)"
proof -
  from spProductRelated_first_set[OF assms(3)] obtain cat cnf' where
    rows: "rows = take (nat limit) (map snd (order_by related_le (RelatedProducts db t pid cat cnf')))"
    by blast
  let ?R = "RelatedProducts db t pid cat cnf'"
  have "mset (map (\<lambda>x. rr_idProduct (snd x)) (order_by related_le ?R))
          = mset (map (\<lambda>x. rr_idProduct (snd x)) ?R)"
    by (simp add: mset_order_by)
  then have "distinct (map (\<lambda>x. rr_idProduct (snd x)) (order_by related_le ?R))"
    using RelatedProducts_distinct[OF assms(1,2), of t pid cat cnf']
    by (metis mset_eq_imp_distinct_iff)
  then have "distinct (take (nat limit) (map (\<lambda>x. rr_idProduct (snd x)) (order_by related_le ?R)))"
    by (rule distinct_take)
  then show ?thesis unfolding rows by (simp add: take_map comp_def)
qed

text \<open>
  Claim C6 asks, among other things, that the operation returns as many items as the
  limit allows and the tenant has eligible products. In the example store the reference
  product has no product of the same confectioner or category on sale, and the tenant
  has one other eligible product. With the limit 4 the procedure sends an empty first
  result set, enters the backfill block and fails there, because the backfill
  \<^verbatim>\<open>SELECT\<close> names \<^verbatim>\<open>[RelatedProducts]\<close> outside the statement that declared it;
  \<^verbatim>\<open>productRelated\<close> throws that error. When the first result set is full the
  procedure completes: in the store with the third product restored and the limit 1 it
  sends that product. \<^verbatim>\<open>productRelated\<close> then returns
  \<^verbatim>\<open>result[0].recordset\<close>, which is \<^verbatim>\<open>undefined\<close>: the tenant has two eligible
  products and the operation returns no item.
\<close>

theorem productRelated_backfill_never_returned:
  "productRelated example_db 1 1 (Some 4) = Inl (DbError (InvalidObjectName ''RelatedProducts''))
   \<and> map rr_idProduct (eligible_products example_db 1 1) = [2]
   \<and> spProductRelated example_db (Some 1) (Some 1) 4 =
       \<lparr>recordsets = [[]], raised = Some (InvalidObjectName ''RelatedProducts'')\<rparr>
   \<and> productRelated restored_db 1 1 (Some 1) = Inr None
   \<and> map rr_idProduct (eligible_products restored_db 1 1) = [2, 3]
   \<and> map (map rr_idProduct) (recordsets (spProductRelated restored_db (Some 1) (Some 1) 1)) = [[3]]
   \<and> raised (spProductRelated restored_db (Some 1) (Some 1) 1) = None"
  by (simp add: related_simps example_simps restored_db_def)

end
